theory Spec2Isabelle
  imports Complex_Main "HOL-Library.Word" "HOL-Library.List_Lexorder"
begin

section \<open>Values of the language\<close>

text \<open>
  A string of the source language is a sequence of 16-bit code units. Comparison of two
  strings with \<open><\<close> and \<open>>=\<close> is lexicographic on the code units.
\<close>

type_synonym code_unit = "16 word"
type_synonym jsstring = "code_unit list"

definition lit :: "string \<Rightarrow> jsstring" where
  "lit s = map (\<lambda>c. of_nat (of_char c)) s"

text \<open>
  What \<open>response.json()\<close> yields: a JSON value. The handlers type it \<open>any\<close> and read
  members from it without a check, so the model keeps every shape a body can have. An
  object is the list of its own properties. \<open>undefined\<close>, which no JSON text denotes but
  which a member read yields, is \<open>None\<close> of \<open>jsval\<close>.
\<close>

datatype json =
    JNull
  | JBool bool
  | JNum rat
  | JStr jsstring
  | JArr "json list"
  | JObj "(jsstring \<times> json) list"

type_synonym jsval = "json option"

text \<open>
  What a handler can throw. \<open>Error m\<close> is \<open>new Error(m)\<close>; \<open>FetchRejected\<close> is the rejection
  of \<open>fetch\<close> itself (the upstream was not reached); \<open>SyntaxError\<close> is what
  \<open>response.json()\<close> rejects with on a body that is not JSON; \<open>TypeError\<close> is a member read
  on \<open>null\<close> or a call of something that is not a function; \<open>URIError\<close> is thrown by
  \<open>encodeURIComponent\<close>.
\<close>

datatype js_error =
    Error jsstring
  | FetchRejected
  | SyntaxError
  | TypeError
  | URIError

section \<open>The world outside the handlers\<close>

record convert_body =
  body_fromTimeZone :: jsstring
  body_dateTime :: jsstring
  body_toTimeZone :: jsstring
  body_dstAmbiguity :: jsstring

text \<open>
  \<open>GET u\<close> is the call \<open>fetchJSON\<close> makes (with its fixed \<open>User-Agent\<close> header),
  \<open>POST u b\<close> the call of the convert handler, \<open>b\<close> the object it serialises.
\<close>

datatype request = GET jsstring | POST jsstring convert_body

text \<open>
  An upstream either is not reached, or answers with a numeric status and a body;
  the body is \<open>None\<close> when it is not JSON text.
\<close>

datatype response = Unreachable | Http nat "json option"

text \<open>
  One invocation of a handler runs against an environment:
  \<^item> \<open>upstream i r\<close>: the answer to request \<open>r\<close> issued from slot \<open>i\<close> of the handler's
    batch of concurrent calls (two calls to the same address may be answered differently);
  \<^item> \<open>settles_first\<close>: in a batch of two, whether the first call settles before the second;
  \<^item> \<open>clock n\<close>: the epoch milliseconds the \<open>n\<close>-th reading of the clock gives;
  \<^item> the functions of the language runtime that the handlers call and that are not
    code of this repository: \<open>getFullYear\<close> and \<open>toISOString\<close> of a date with a given
    time value, the time value of \<open>new Date(v)\<close> (\<open>None\<close> is \<open>NaN\<close>),
    \<open>encodeURIComponent\<close> (\<open>None\<close>: it throws), upper-casing of a string with a code unit
    outside ASCII, the text of a number that is not a whole number of magnitude at most
    \<open>2^53\<close>, \<open>n >= s\<close> for a number \<open>n\<close> and a string \<open>s\<close> (whether \<open>s\<close> read as a number
    is a number and at most \<open>n\<close>), and the conversion of an array or an object to a
    primitive value, which is a string (\<open>None\<close>: the conversion throws).
\<close>

record env =
  upstream :: "nat \<Rightarrow> request \<Rightarrow> response"
  settles_first :: bool
  clock :: "nat \<Rightarrow> int"
  getFullYear :: "int \<Rightarrow> int"
  toISOString :: "int \<Rightarrow> jsstring"
  dateValue :: "jsval \<Rightarrow> int option"
  encodeURIComponent :: "jsstring \<Rightarrow> jsstring option"
  toUpperCaseUnicode :: "jsstring \<Rightarrow> jsstring"
  numberToStringOther :: "rat \<Rightarrow> jsstring"
  geNumber :: "rat \<Rightarrow> jsstring \<Rightarrow> bool"
  toPrimitive :: "json \<Rightarrow> jsstring option"

text \<open>A handler's run: the requests it issued, and what it returned or threw.\<close>

type_synonym 'a outcome = "request list \<times> (js_error + 'a)"

section \<open>Operations of the language the handlers use\<close>

definition digit :: "nat \<Rightarrow> code_unit" where
  "digit d = of_nat (48 + d)"

fun decimal :: "nat \<Rightarrow> jsstring" where
  "decimal n = (if n < 10 then [digit n] else decimal (n div 10) @ [digit (n mod 10)])"

declare decimal.simps [simp del]

text \<open>
  The text a template literal gives a number: the shortest digits that read back as the
  same double. For a whole number of magnitude at most \<open>2^53\<close> these are all its decimal
  digits; beyond that they are not (\<open>2^64\<close> prints as \<open>18446744073709552000\<close>), and the text
  is left to the runtime.
\<close>

definition number_toString :: "env \<Rightarrow> rat \<Rightarrow> jsstring" where
  "number_toString e q =
     (if of_int \<lfloor>q\<rfloor> = q \<and> \<bar>q\<bar> \<le> 2 ^ 53
      then (if q < 0 then lit ''-'' @ decimal (nat (- \<lfloor>q\<rfloor>)) else decimal (nat \<lfloor>q\<rfloor>))
      else numberToStringOther e q)"

definition ascii_upper :: "code_unit \<Rightarrow> code_unit" where
  "ascii_upper c = (if 97 \<le> c \<and> c \<le> 122 then c - 32 else c)"

definition toUpperCase :: "env \<Rightarrow> jsstring \<Rightarrow> jsstring" where
  "toUpperCase e s =
     (if list_all (\<lambda>c. c < 128) s then map ascii_upper s else toUpperCaseUnicode e s)"

text \<open>\<open>a < b\<close> on two strings.\<close>

fun str_lt :: "jsstring \<Rightarrow> jsstring \<Rightarrow> bool" where
  "str_lt [] [] = False"
| "str_lt [] (y # ys) = True"
| "str_lt (x # xs) [] = False"
| "str_lt (x # xs) (y # ys) = (if x = y then str_lt xs ys else x < y)"

text \<open>
  \<open>v >= s\<close> with \<open>s\<close> a string. An array or an object is first converted to a primitive
  value, a string, and the conversion throws a \<open>TypeError\<close> when the value has none (for
  instance an object with an own \<open>toString\<close> property, which in a JSON value is not
  callable). Two
  strings are compared as strings: \<open>v >= s\<close> is the negation of \<open>v < s\<close>. Anything else is
  compared as a number with \<open>s\<close> read as a number: \<open>undefined\<close> is \<open>NaN\<close> and never
  \<open>>=\<close>, \<open>null\<close> is 0, \<open>false\<close> and \<open>true\<close> are 0 and 1.
\<close>

definition js_ge :: "env \<Rightarrow> jsval \<Rightarrow> jsstring \<Rightarrow> js_error + bool" where
  "js_ge e v s =
     (case v of
        None \<Rightarrow> Inr False
      | Some JNull \<Rightarrow> Inr (geNumber e 0 s)
      | Some (JBool b) \<Rightarrow> Inr (geNumber e (if b then 1 else 0) s)
      | Some (JNum q) \<Rightarrow> Inr (geNumber e q s)
      | Some (JStr d) \<Rightarrow> Inr (\<not> str_lt d s)
      | Some (JArr xs) \<Rightarrow>
          (case toPrimitive e (JArr xs) of
             None \<Rightarrow> Inl TypeError
           | Some p \<Rightarrow> Inr (\<not> str_lt p s))
      | Some (JObj ps) \<Rightarrow>
          (case toPrimitive e (JObj ps) of
             None \<Rightarrow> Inl TypeError
           | Some p \<Rightarrow> Inr (\<not> str_lt p s)))"

text \<open>
  \<open>v.k\<close> for one of the keys the handlers read (none of them is a member of a
  prototype): it throws a \<open>TypeError\<close> when \<open>v\<close> is \<open>null\<close>, and is otherwise the own
  property of an object and \<open>undefined\<close> on anything else. A handler reads several members
  of one value in a row, so the model tests the value for \<open>null\<close> once and then reads
  with \<open>own\<close>.
\<close>

definition own :: "json \<Rightarrow> string \<Rightarrow> jsval" where
  "own v k = (case v of JObj ps \<Rightarrow> map_of ps (lit k) | _ \<Rightarrow> None)"

text \<open>\<open>v?.k\<close>: \<open>undefined\<close> when \<open>v\<close> is \<open>undefined\<close> or \<open>null\<close>.\<close>

definition opt_member :: "jsval \<Rightarrow> string \<Rightarrow> jsval" where
  "opt_member v k = (case v of None \<Rightarrow> None | Some j \<Rightarrow> own j k)"

text \<open>\<open>v.length\<close>.\<close>

definition js_length :: "json \<Rightarrow> js_error + jsval" where
  "js_length v =
     (case v of
        JNull \<Rightarrow> Inl TypeError
      | JArr xs \<Rightarrow> Inr (Some (JNum (of_nat (length xs))))
      | JStr s \<Rightarrow> Inr (Some (JNum (of_nat (length s))))
      | JObj ps \<Rightarrow> Inr (map_of ps (lit ''length''))
      | _ \<Rightarrow> Inr None)"

text \<open>\<open>v.slice(0, n)\<close>: arrays and strings have the method, nothing else in a JSON value is callable.\<close>

definition js_slice0 :: "json \<Rightarrow> nat \<Rightarrow> js_error + json" where
  "js_slice0 v n =
     (case v of
        JArr xs \<Rightarrow> Inr (JArr (take n xs))
      | JStr s \<Rightarrow> Inr (JStr (take n s))
      | _ \<Rightarrow> Inl TypeError)"

text \<open>
  \<open>v.map(f)\<close> and \<open>v.filter(p)\<close> exist on arrays only; the callback may throw, which
  ends the traversal.
\<close>

fun map_throwing :: "('a \<Rightarrow> js_error + 'b) \<Rightarrow> 'a list \<Rightarrow> js_error + 'b list" where
  "map_throwing f [] = Inr []"
| "map_throwing f (x # xs) =
     (case f x of
        Inl err \<Rightarrow> Inl err
      | Inr y \<Rightarrow> (case map_throwing f xs of Inl err \<Rightarrow> Inl err | Inr ys \<Rightarrow> Inr (y # ys)))"

fun filter_throwing :: "('a \<Rightarrow> js_error + bool) \<Rightarrow> 'a list \<Rightarrow> js_error + 'a list" where
  "filter_throwing p [] = Inr []"
| "filter_throwing p (x # xs) =
     (case p x of
        Inl err \<Rightarrow> Inl err
      | Inr b \<Rightarrow>
          (case filter_throwing p xs of
             Inl err \<Rightarrow> Inl err
           | Inr ys \<Rightarrow> Inr (if b then x # ys else ys)))"

definition as_array :: "json \<Rightarrow> js_error + json list" where
  "as_array v = (case v of JArr xs \<Rightarrow> Inr xs | _ \<Rightarrow> Inl TypeError)"

text \<open>
  \<open>Promise.all\<close> of two calls: both values, or the rejection of the call that rejects
  first.
\<close>

definition promise_all2 ::
  "bool \<Rightarrow> js_error + 'a \<Rightarrow> js_error + 'b \<Rightarrow> js_error + ('a \<times> 'b)" where
  "promise_all2 first_first r1 r2 =
     (case (r1, r2) of
        (Inr a, Inr b) \<Rightarrow> Inr (a, b)
      | (Inl e1, Inr b) \<Rightarrow> Inl e1
      | (Inr a, Inl e2) \<Rightarrow> Inl e2
      | (Inl e1, Inl e2) \<Rightarrow> Inl (if first_first then e1 else e2))"

section \<open>The helper \<open>fetchJSON\<close>\<close>

definition ok :: "nat \<Rightarrow> bool" where
  "ok status = (200 \<le> status \<and> status \<le> 299)"

definition api_error :: "nat \<Rightarrow> js_error" where
  "api_error status = Error (lit ''API error: '' @ decimal status)"

text \<open>What is done with a response once it is there: the status check, then the body.\<close>

definition read_response :: "response \<Rightarrow> js_error + json" where
  "read_response r =
     (case r of
        Unreachable \<Rightarrow> Inl FetchRejected
      | Http status body \<Rightarrow>
          if \<not> ok status then Inl (api_error status)
          else (case body of None \<Rightarrow> Inl SyntaxError | Some v \<Rightarrow> Inr v))"

definition fetchJSON :: "env \<Rightarrow> nat \<Rightarrow> jsstring \<Rightarrow> js_error + json" where
  "fetchJSON e i url = read_response (upstream e i (GET url))"


section \<open>Overview\<close>

record overview_out =
  ov_totalTimezones :: jsval
  ov_sampleTimezones :: "jsstring list"
  ov_totalCountries :: jsval
  ov_sampleCountries :: json
  ov_endpoints :: "(jsstring \<times> jsstring) list"
  ov_fetchedAt :: jsstring

definition majorZones :: "jsstring list" where
  "majorZones = map lit
     [''America/New_York'', ''America/Los_Angeles'', ''America/Chicago'',
      ''Europe/London'', ''Europe/Paris'', ''Europe/Berlin'',
      ''Asia/Tokyo'', ''Asia/Shanghai'', ''Asia/Singapore'',
      ''Australia/Sydney'', ''Pacific/Auckland'']"

definition endpoint_descriptions :: "(jsstring \<times> jsstring) list" where
  "endpoint_descriptions =
     [(lit ''current-time'', lit ''Get current time in any timezone ($0.001)''),
      (lit ''convert'', lit ''Convert time between timezones ($0.002)''),
      (lit ''holidays'', lit ''Get holidays for country/year ($0.002)''),
      (lit ''multi-zone'', lit ''Current time in multiple zones ($0.003)''),
      (lit ''full-report'', lit ''Complete timezone report ($0.005)'')]"

definition timezones_url :: jsstring where
  "timezones_url = lit ''https://timeapi.io/api/timezone/availabletimezones''"

definition countries_url :: jsstring where
  "countries_url = lit ''https://date.nager.at/api/v3/AvailableCountries''"

text \<open>The part of the handler after both answers are there.\<close>

definition overview_output :: "env \<Rightarrow> json \<Rightarrow> json \<Rightarrow> js_error + overview_out" where
  "overview_output e timezones countries =
     (case js_length timezones of
        Inl err \<Rightarrow> Inl err
      | Inr n_timezones \<Rightarrow>
          (case js_length countries of
             Inl err \<Rightarrow> Inl err
           | Inr n_countries \<Rightarrow>
               (case js_slice0 countries 10 of
                  Inl err \<Rightarrow> Inl err
                | Inr sample \<Rightarrow>
                    Inr \<lparr>ov_totalTimezones = n_timezones,
                         ov_sampleTimezones = majorZones,
                         ov_totalCountries = n_countries,
                         ov_sampleCountries = sample,
                         ov_endpoints = endpoint_descriptions,
                         ov_fetchedAt = toISOString e (clock e 0)\<rparr>)))"

definition overview_handler :: "env \<Rightarrow> overview_out outcome" where
  "overview_handler e =
     ([GET timezones_url, GET countries_url],
      case promise_all2 (settles_first e)
             (fetchJSON e 0 timezones_url) (fetchJSON e 1 countries_url) of
        Inl err \<Rightarrow> Inl err
      | Inr (timezones, countries) \<Rightarrow> overview_output e timezones countries)"

section \<open>Current time\<close>

record current_time_out =
  ct_timezone :: jsval
  ct_dateTime :: jsval
  ct_date :: jsval
  ct_time :: jsval
  ct_dayOfWeek :: jsval
  ct_dstActive :: jsval
  ct_year :: jsval
  ct_month :: jsval
  ct_day :: jsval
  ct_hour :: jsval
  ct_minute :: jsval
  ct_seconds :: jsval

definition zone_url :: "jsstring \<Rightarrow> jsstring" where
  "zone_url encoded = lit ''https://timeapi.io/api/time/current/zone?timeZone='' @ encoded"

definition current_time_handler :: "env \<Rightarrow> jsstring \<Rightarrow> current_time_out outcome" where
  "current_time_handler e tz =
     (case encodeURIComponent e tz of
        None \<Rightarrow> ([], Inl URIError)
      | Some encoded \<Rightarrow>
          ([GET (zone_url encoded)],
           case fetchJSON e 0 (zone_url encoded) of
             Inl err \<Rightarrow> Inl err
           | Inr data \<Rightarrow>
               if data = JNull then Inl TypeError
               else Inr \<lparr>ct_timezone = own data ''timeZone'',
                         ct_dateTime = own data ''dateTime'',
                         ct_date = own data ''date'',
                         ct_time = own data ''time'',
                         ct_dayOfWeek = own data ''dayOfWeek'',
                         ct_dstActive = own data ''dstActive'',
                         ct_year = own data ''year'',
                         ct_month = own data ''month'',
                         ct_day = own data ''day'',
                         ct_hour = own data ''hour'',
                         ct_minute = own data ''minute'',
                         ct_seconds = own data ''seconds''\<rparr>))"

section \<open>Convert\<close>

record convert_original =
  co_timezone :: jsval
  co_dateTime :: jsval

record convert_converted =
  cc_timezone :: jsval
  cc_dateTime :: jsval
  cc_date :: jsval
  cc_time :: jsval
  cc_dayOfWeek :: jsval
  cc_dstActive :: jsval

record convert_out =
  cv_original :: convert_original
  cv_converted :: convert_converted

definition convert_url :: jsstring where
  "convert_url = lit ''https://timeapi.io/api/conversion/converttimezone''"

definition convert_request :: "jsstring \<Rightarrow> jsstring \<Rightarrow> jsstring \<Rightarrow> request" where
  "convert_request fromTz toTz dt =
     POST convert_url
       \<lparr>body_fromTimeZone = fromTz, body_dateTime = dt,
        body_toTimeZone = toTz, body_dstAmbiguity = []\<rparr>"

text \<open>The arguments are the input's \<open>fromTimezone\<close>, \<open>toTimezone\<close> and \<open>dateTime\<close>.\<close>

definition convert_handler ::
  "env \<Rightarrow> jsstring \<Rightarrow> jsstring \<Rightarrow> jsstring \<Rightarrow> convert_out outcome" where
  "convert_handler e fromTz toTz dt =
     ([convert_request fromTz toTz dt],
      case read_response (upstream e 0 (convert_request fromTz toTz dt)) of
        Inl err \<Rightarrow> Inl err
      | Inr data \<Rightarrow>
          if data = JNull then Inl TypeError
          else Inr \<lparr>cv_original =
                      \<lparr>co_timezone = own data ''fromTimezone'',
                       co_dateTime = own data ''fromDateTime''\<rparr>,
                    cv_converted =
                      \<lparr>cc_timezone = own data ''toTimeZone'',
                       cc_dateTime = opt_member (own data ''conversionResult'') ''dateTime'',
                       cc_date = opt_member (own data ''conversionResult'') ''date'',
                       cc_time = opt_member (own data ''conversionResult'') ''time'',
                       cc_dayOfWeek = opt_member (own data ''conversionResult'') ''dayOfWeek'',
                       cc_dstActive = opt_member (own data ''conversionResult'') ''dstActive''\<rparr>\<rparr>)"

section \<open>Holidays\<close>

record holiday =
  h_date :: jsval
  h_name :: jsval
  h_localName :: jsval
  h_isGlobal :: jsval
  h_types :: jsval

record holidays_out =
  hd_countryCode :: jsstring
  hd_year :: rat
  hd_totalHolidays :: nat
  hd_holidays :: "holiday list"

definition holidays_url :: "env \<Rightarrow> rat \<Rightarrow> jsstring \<Rightarrow> jsstring" where
  "holidays_url e year code =
     lit ''https://date.nager.at/api/v3/publicholidays/'' @ number_toString e year
       @ lit ''/'' @ code"

text \<open>
  \<open>ctx.input.year || new Date().getFullYear()\<close>: the right operand is evaluated, and the
  clock read, when the year is \<open>undefined\<close> (\<open>None\<close>) or a number that counts as false.
\<close>

definition year_or_current :: "env \<Rightarrow> rat option \<Rightarrow> rat" where
  "year_or_current e y =
     (case y of
        None \<Rightarrow> of_int (getFullYear e (clock e 0))
      | Some q \<Rightarrow> if q = 0 then of_int (getFullYear e (clock e 0)) else q)"

definition reshape_holiday :: "json \<Rightarrow> js_error + holiday" where
  "reshape_holiday h =
     (if h = JNull then Inl TypeError
      else Inr \<lparr>h_date = own h ''date'',
                h_name = own h ''name'',
                h_localName = own h ''localName'',
                h_isGlobal = own h ''global'',
                h_types = own h ''types''\<rparr>)"

definition holidays_handler :: "env \<Rightarrow> jsstring \<Rightarrow> rat option \<Rightarrow> holidays_out outcome" where
  "holidays_handler e countryCode y =
     (let year = year_or_current e y;
          url = holidays_url e year (toUpperCase e countryCode)
      in ([GET url],
          case fetchJSON e 0 url of
            Inl err \<Rightarrow> Inl err
          | Inr data \<Rightarrow>
              (case as_array data of
                 Inl err \<Rightarrow> Inl err
               | Inr items \<Rightarrow>
                   (case map_throwing reshape_holiday items of
                      Inl err \<Rightarrow> Inl err
                    | Inr holidays \<Rightarrow>
                        Inr \<lparr>hd_countryCode = toUpperCase e countryCode,
                             hd_year = year,
                             hd_totalHolidays = length holidays,
                             hd_holidays = holidays\<rparr>))))"

section \<open>Multi-zone\<close>

record zone_time =
  zt_timezone :: jsstring
  zt_dateTime :: jsval
  zt_date :: jsval
  zt_time :: jsval
  zt_dayOfWeek :: jsval
  zt_dstActive :: jsval

record zone_error =
  ze_timezone :: jsstring
  ze_error :: jsstring

datatype slot = Success zone_time | Failed zone_error

definition error_marker :: "jsstring \<Rightarrow> slot" where
  "error_marker tz = Failed \<lparr>ze_timezone = tz, ze_error = lit ''Failed to fetch''\<rparr>"

definition slot_timezone :: "slot \<Rightarrow> jsstring" where
  "slot_timezone s = (case s of Success z \<Rightarrow> zt_timezone z | Failed m \<Rightarrow> ze_timezone m)"

text \<open>
  The body of the \<open>try\<close> of one item, as a computation that may throw, and the item with
  its \<open>catch\<close>, which never throws. \<open>i\<close> is the item's index.
\<close>

definition zone_try :: "env \<Rightarrow> nat \<Rightarrow> jsstring \<Rightarrow> request list \<times> (js_error + zone_time)" where
  "zone_try e i tz =
     (case encodeURIComponent e tz of
        None \<Rightarrow> ([], Inl URIError)
      | Some encoded \<Rightarrow>
          ([GET (zone_url encoded)],
           case fetchJSON e i (zone_url encoded) of
             Inl err \<Rightarrow> Inl err
           | Inr data \<Rightarrow>
               if data = JNull then Inl TypeError
               else Inr \<lparr>zt_timezone = tz,
                         zt_dateTime = own data ''dateTime'',
                         zt_date = own data ''date'',
                         zt_time = own data ''time'',
                         zt_dayOfWeek = own data ''dayOfWeek'',
                         zt_dstActive = own data ''dstActive''\<rparr>))"

definition zone_item :: "env \<Rightarrow> nat \<Rightarrow> jsstring \<Rightarrow> request list \<times> slot" where
  "zone_item e i tz =
     (case zone_try e i tz of
        (reqs, Inl err) \<Rightarrow> (reqs, error_marker tz)
      | (reqs, Inr z) \<Rightarrow> (reqs, Success z))"

record multi_zone_out =
  mz_count :: nat
  mz_times :: "slot list"
  mz_fetchedAt :: jsstring

definition multi_zone_handler :: "env \<Rightarrow> jsstring list \<Rightarrow> multi_zone_out outcome" where
  "multi_zone_handler e timezones =
     (let results = map (\<lambda>(i, tz). zone_item e i tz) (enumerate 0 timezones)
      in (concat (map fst results),
          Inr \<lparr>mz_count = length results,
               mz_times = map snd results,
               mz_fetchedAt = toISOString e (clock e 0)\<rparr>))"

section \<open>Full report\<close>

record upcoming_holiday =
  up_date :: jsval
  up_name :: jsval
  up_daysUntil :: "int option"

record report_timezone =
  rt_name :: jsstring
  rt_currentTime :: jsval
  rt_date :: jsval
  rt_time :: jsval
  rt_dayOfWeek :: jsval
  rt_dstActive :: jsval

record report_country =
  rc_code :: jsstring
  rc_totalHolidays :: nat
  rc_upcomingHolidays :: "upcoming_holiday list"

record report_out =
  fr_timezone :: report_timezone
  fr_country :: report_country
  fr_generatedAt :: jsstring

text \<open>\<open>s.split('T')[0]\<close>: the part of \<open>s\<close> before its first \<open>T\<close> (code unit 84).\<close>

definition before_T :: "jsstring \<Rightarrow> jsstring" where
  "before_T s = takeWhile (\<lambda>c. c \<noteq> 84) s"

text \<open>
  \<open>Math.ceil((t - now) / (1000 * 60 * 60 * 24))\<close>, where \<open>t\<close> is a time value or \<open>NaN\<close>
  (\<open>None\<close>), and the result is \<open>NaN\<close> with it. A time value is a whole number of
  milliseconds of magnitude at most \<open>8.64 * 10^15\<close>, so for a clock before the year 13000
  the difference is below \<open>2^53\<close> and exact in the language's double arithmetic, and the
  rounded quotient, of magnitude below \<open>2^27\<close>, is a whole number only if the exact one
  is: both have the same ceiling. The model computes with the exact quotient. (A quotient
  between \<open>-1\<close> and \<open>0\<close> gives the language's negative zero, which is equal to \<open>0\<close>.)
\<close>

definition days_until :: "int option \<Rightarrow> int \<Rightarrow> int option" where
  "days_until t now =
     map_option (\<lambda>ms. \<lceil>(of_int (ms - now) :: rat) / (1000 * 60 * 60 * 24)\<rceil>) t"

text \<open>
  The callback of \<open>filter\<close>: \<open>h.date >= today\<close>. It throws on a \<open>null\<close> element and on a date
  that has no primitive value.
\<close>

definition is_upcoming :: "env \<Rightarrow> jsstring \<Rightarrow> json \<Rightarrow> js_error + bool" where
  "is_upcoming e today h =
     (if h = JNull then Inl TypeError else js_ge e (own h ''date'') today)"

text \<open>
  The callback of \<open>map\<close>, for the element at index \<open>i\<close> of the list it runs over; \<open>first\<close> is
  the number of clock readings before the traversal. An element that passed the filter is
  not \<open>null\<close>, and its date has a primitive value, so that neither the member reads nor
  \<open>new Date(h.date)\<close> throw.
\<close>

definition upcoming_entry :: "env \<Rightarrow> nat \<Rightarrow> nat \<times> json \<Rightarrow> upcoming_holiday" where
  "upcoming_entry e first ih =
     (case ih of (i, h) \<Rightarrow>
        \<lparr>up_date = own h ''date'',
         up_name = own h ''name'',
         up_daysUntil = days_until (dateValue e (own h ''date'')) (clock e (first + i))\<rparr>)"

text \<open>
  The part of the handler after both answers are there; the clock was read once before
  (for the year).
\<close>

definition full_report_output ::
  "env \<Rightarrow> jsstring \<Rightarrow> jsstring \<Rightarrow> json \<Rightarrow> json \<Rightarrow> js_error + report_out" where
  "full_report_output e tz countryCode timeData holidays =
     (let today = before_T (toISOString e (clock e 1)) in
      case as_array holidays of
        Inl err \<Rightarrow> Inl err
      | Inr items \<Rightarrow>
          (case filter_throwing (is_upcoming e today) items of
             Inl err \<Rightarrow> Inl err
           | Inr kept \<Rightarrow>
               (let upcomingHolidays = map (upcoming_entry e 2) (enumerate 0 (take 5 kept))
                in if timeData = JNull then Inl TypeError
                   else Inr \<lparr>fr_timezone =
                               \<lparr>rt_name = tz,
                                rt_currentTime = own timeData ''dateTime'',
                                rt_date = own timeData ''date'',
                                rt_time = own timeData ''time'',
                                rt_dayOfWeek = own timeData ''dayOfWeek'',
                                rt_dstActive = own timeData ''dstActive''\<rparr>,
                             fr_country =
                               \<lparr>rc_code = toUpperCase e countryCode,
                                rc_totalHolidays = length items,
                                rc_upcomingHolidays = upcomingHolidays\<rparr>,
                             fr_generatedAt =
                               toISOString e (clock e (2 + length upcomingHolidays))\<rparr>)))"

definition full_report_handler :: "env \<Rightarrow> jsstring \<Rightarrow> jsstring \<Rightarrow> report_out outcome" where
  "full_report_handler e tz countryCode =
     (let year = getFullYear e (clock e 0) in
      case encodeURIComponent e tz of
        None \<Rightarrow> ([], Inl URIError)
      | Some encoded \<Rightarrow>
          (let url1 = zone_url encoded;
               url2 = holidays_url e (of_int year) (toUpperCase e countryCode)
           in ([GET url1, GET url2],
               case promise_all2 (settles_first e) (fetchJSON e 0 url1) (fetchJSON e 1 url2) of
                 Inl err \<Rightarrow> Inl err
               | Inr (timeData, holidays) \<Rightarrow>
                   full_report_output e tz countryCode timeData holidays)))"

section \<open>Sample environments\<close>

text \<open>
  A concrete environment on which the theorems below are run: the two upstreams as they
  answer on 1 May 2026, 08:00 UTC. \<open>encode_slash\<close> is what \<open>encodeURIComponent\<close> does to
  a timezone name made of letters, digits, \<open>_\<close> and \<open>/\<close>.
\<close>

definition encode_slash :: "jsstring \<Rightarrow> jsstring" where
  "encode_slash s = concat (map (\<lambda>c. if c = 47 then lit ''%2F'' else [c]) s)"

definition new_york_body :: json where
  "new_york_body =
     JObj [(lit ''timeZone'', JStr (lit ''America/New_York'')),
           (lit ''dateTime'', JStr (lit ''2026-05-01T04:00:00'')),
           (lit ''date'', JStr (lit ''05/01/2026'')),
           (lit ''time'', JStr (lit ''04:00'')),
           (lit ''dayOfWeek'', JStr (lit ''Friday'')),
           (lit ''dstActive'', JBool True)]"

definition sample_holiday :: "string \<Rightarrow> string \<Rightarrow> json" where
  "sample_holiday d n =
     JObj [(lit ''date'', JStr (lit d)), (lit ''name'', JStr (lit n)),
           (lit ''localName'', JStr (lit n)), (lit ''global'', JBool True),
           (lit ''types'', JArr [JStr (lit ''Public'')])]"

definition us_holidays_body :: json where
  "us_holidays_body =
     JArr [sample_holiday ''2026-01-01'' ''New Year Day'',
           sample_holiday ''2026-02-16'' ''Presidents Day'',
           sample_holiday ''2026-05-25'' ''Memorial Day'',
           sample_holiday ''2026-07-03'' ''Independence Day'',
           sample_holiday ''2026-09-07'' ''Labour Day'',
           sample_holiday ''2026-10-12'' ''Columbus Day'',
           sample_holiday ''2026-11-11'' ''Veterans Day'',
           sample_holiday ''2026-11-26'' ''Thanksgiving Day'',
           sample_holiday ''2026-12-25'' ''Christmas Day'']"

definition sample_countries :: "json list" where
  "sample_countries =
     map (\<lambda>c. JObj [(lit ''countryCode'', JStr (lit c))])
       [''AD'', ''AL'', ''AM'', ''AR'', ''AT'', ''AU'', ''AX'', ''BA'', ''BB'', ''BE'', ''BG'', ''BJ'']"

definition sample_timezones :: "json list" where
  "sample_timezones = map (\<lambda>z. JStr (lit z)) [''Africa/Abidjan'', ''Africa/Accra'', ''UTC'']"

definition sample_conversion :: json where
  "sample_conversion =
     JObj [(lit ''fromTimezone'', JStr (lit ''America/New_York'')),
           (lit ''fromDateTime'', JStr (lit ''2026-05-01T04:00:00'')),
           (lit ''toTimeZone'', JStr (lit ''Europe/London''))]"

definition sample_upstream :: "nat \<Rightarrow> request \<Rightarrow> response" where
  "sample_upstream i r =
     (if r = GET (lit ''https://timeapi.io/api/time/current/zone?timeZone=America%2FNew_York'')
      then Http 200 (Some new_york_body)
      else if r = GET (lit ''https://date.nager.at/api/v3/publicholidays/2026/US'')
      then Http 200 (Some us_holidays_body)
      else if r = GET timezones_url then Http 200 (Some (JArr sample_timezones))
      else if r = GET countries_url then Http 200 (Some (JArr sample_countries))
      else if r = convert_request (lit ''America/New_York'') (lit ''Europe/London'')
                    (lit ''2026-05-01 04:00:00'')
      then Http 200 (Some sample_conversion)
      else if r = GET (lit ''https://date.nager.at/api/v3/publicholidays/2026/ZZ'')
      then Http 200 (Some (JObj [(lit ''holidays'', JArr [])]))
      else if r = GET (lit ''https://timeapi.io/api/time/current/zone?timeZone=Etc%2FUTC'')
      then Http 503 None
      else Http 400 None)"

definition sample_dates :: "(jsstring \<times> int) list" where
  "sample_dates =
     [(lit ''2026-05-25'', 1779667200000), (lit ''2026-07-03'', 1783036800000),
      (lit ''2026-09-07'', 1788739200000), (lit ''2026-10-12'', 1791763200000),
      (lit ''2026-11-11'', 1794355200000), (lit ''2026-11-11T00:00:00'', 1794304800000)]"

definition sample_env :: env where
  "sample_env =
     \<lparr>upstream = sample_upstream,
      settles_first = True,
      clock = (\<lambda>n. 1777622400000),
      getFullYear = (\<lambda>t. 2026),
      toISOString = (\<lambda>t. lit ''2026-05-01T08:00:00.000Z''),
      dateValue = (\<lambda>v. case v of Some (JStr d) \<Rightarrow> map_of sample_dates d | _ \<Rightarrow> None),
      encodeURIComponent = (\<lambda>s. Some (encode_slash s)),
      toUpperCaseUnicode = (\<lambda>s. s),
      numberToStringOther = (\<lambda>q. lit ''NaN''),
      geNumber = (\<lambda>q s. False),
      toPrimitive =
        (\<lambda>v. case v of
               JObj ps \<Rightarrow>
                 if map_of ps (lit ''toString'') = None then Some (lit ''[object Object]'')
                 else None
             | JArr [] \<Rightarrow> Some []
             | JArr [JStr s] \<Rightarrow> Some s
             | _ \<Rightarrow> None)\<rparr>"

text \<open>The same upstreams on Memorial Day, 25 May 2026, 08:00 UTC.\<close>

definition memorial_env :: env where
  "memorial_env =
     sample_env
       \<lparr>clock := (\<lambda>n. 1779696000000),
        toISOString := (\<lambda>t. lit ''2026-05-25T08:00:00.000Z'')\<rparr>"

text \<open>
  The same upstreams late on 11 November 2026 (23:00 UTC), on a server whose local time is
  14 hours ahead of UTC, with a holiday list that gives one date with a local time of day.
\<close>

definition late_env :: env where
  "late_env =
     sample_env
       \<lparr>upstream :=
          (\<lambda>i r. if i = 0 then Http 200 (Some new_york_body)
                 else Http 200 (Some (JArr [sample_holiday ''2026-11-11T00:00:00'' ''Local Day'',
                                            sample_holiday ''2026-11-11'' ''Veterans Day'']))),
        clock := (\<lambda>n. 1794438000000),
        toISOString := (\<lambda>t. lit ''2026-11-11T23:00:00.000Z'')\<rparr>"

section \<open>Failed upstream calls\<close>

text \<open>
  An upstream call fails when the upstream is not reached or answers with a status
  outside 200..299. \<open>answers e reqs\<close> are the answers to the requests a handler issued, in
  the order of its batch. A run throws when its result is an error.
\<close>

definition call_fails :: "response \<Rightarrow> bool" where
  "call_fails r = (case r of Unreachable \<Rightarrow> True | Http status body \<Rightarrow> \<not> ok status)"

definition answers :: "env \<Rightarrow> request list \<Rightarrow> response list" where
  "answers e reqs = map (\<lambda>(i, r). upstream e i r) (enumerate 0 reqs)"

definition throws :: "'a outcome \<Rightarrow> bool" where
  "throws run = isl (snd run)"

text \<open>The run throws if and only if some call of its batch fails.\<close>

definition throws_iff_call_fails :: "env \<Rightarrow> 'a outcome \<Rightarrow> bool" where
  "throws_iff_call_fails e run = (throws run \<longleftrightarrow> list_ex call_fails (answers e (fst run)))"

text \<open>
  What an upstream call rejects with, if it rejects: the rejection of \<open>fetch\<close> when the
  upstream is not reached, the error whose message is \<open>API error: \<close> followed by the status
  when the status is outside 200..299, and a \<open>SyntaxError\<close> when the status is inside and
  the body is not JSON. A call that does not reject yields the JSON body.
\<close>

definition rejection :: "response \<Rightarrow> js_error option" where
  "rejection r =
     (case r of
        Unreachable \<Rightarrow> Some FetchRejected
      | Http status body \<Rightarrow>
          if status < 200 \<or> 299 < status
          then Some (Error (lit ''API error: '' @ decimal status))
          else (case body of None \<Rightarrow> Some SyntaxError | Some v \<Rightarrow> None))"

definition json_body :: "response \<Rightarrow> json" where
  "json_body r = (case r of Http status (Some v) \<Rightarrow> v | _ \<Rightarrow> JNull)"

text \<open>
  What surfaces from a handler with one upstream call, as a property of its result: the
  rejection of the call if it rejects; otherwise a \<open>TypeError\<close> if the body is not one
  the handler can read, and an output if it is.
\<close>

definition surfaces1 :: "response \<Rightarrow> (json \<Rightarrow> bool) \<Rightarrow> js_error + 'a \<Rightarrow> bool" where
  "surfaces1 r readable res =
     (case rejection r of
        Some err \<Rightarrow> res = Inl err
      | None \<Rightarrow> if readable (json_body r) then \<not> isl res else res = Inl TypeError)"

text \<open>
  The same for a batch of two calls: if both reject, the rejection of the one that
  settles first; if one rejects, its rejection.
\<close>

definition surfaces2 ::
  "bool \<Rightarrow> response \<Rightarrow> response \<Rightarrow> (json \<Rightarrow> json \<Rightarrow> bool) \<Rightarrow> js_error + 'a \<Rightarrow> bool" where
  "surfaces2 first_first r0 r1 readable res =
     (case (rejection r0, rejection r1) of
        (Some err0, Some err1) \<Rightarrow> res = Inl (if first_first then err0 else err1)
      | (Some err0, None) \<Rightarrow> res = Inl err0
      | (None, Some err1) \<Rightarrow> res = Inl err1
      | (None, None) \<Rightarrow>
          if readable (json_body r0) (json_body r1) then \<not> isl res else res = Inl TypeError)"

text \<open>
  The bodies each handler can read. Overview reads the length of both bodies, which
  throws on \<open>null\<close>, and slices the second, which only an array or a string allows.
  Current-time and convert read members of the body, which throws on \<open>null\<close>. Holidays maps
  over the body, which only an array allows, and reads members of each element. Full
  report reads members of the first body, filters the second, which only an array
  allows, and for each element reads its date and compares it, which throws on a \<open>null\<close>
  element and on a date that is an array or an object with no primitive value.
\<close>

definition overview_readable :: "json \<Rightarrow> json \<Rightarrow> bool" where
  "overview_readable timezones countries =
     (timezones \<noteq> JNull
      \<and> (case countries of JArr xs \<Rightarrow> True | JStr s \<Rightarrow> True | _ \<Rightarrow> False))"

definition holidays_readable :: "json \<Rightarrow> bool" where
  "holidays_readable data = (case data of JArr items \<Rightarrow> JNull \<notin> set items | _ \<Rightarrow> False)"

definition has_primitive :: "env \<Rightarrow> jsval \<Rightarrow> bool" where
  "has_primitive e v =
     (case v of
        Some (JArr xs) \<Rightarrow> toPrimitive e (JArr xs) \<noteq> None
      | Some (JObj ps) \<Rightarrow> toPrimitive e (JObj ps) \<noteq> None
      | _ \<Rightarrow> True)"

definition report_readable :: "env \<Rightarrow> json \<Rightarrow> json \<Rightarrow> bool" where
  "report_readable e timeData holidays =
     (timeData \<noteq> JNull
      \<and> (case holidays of
            JArr items \<Rightarrow>
              list_all (\<lambda>h. h \<noteq> JNull \<and> has_primitive e (own h ''date'')) items
          | _ \<Rightarrow> False))"

section \<open>Multi-zone: one slot per timezone\<close>

lemma zone_item_cases:
  "snd (zone_item e i tz) = Failed \<lparr>ze_timezone = tz, ze_error = lit ''Failed to fetch''\<rparr>
   \<or> (\<exists>z. snd (zone_item e i tz) = Success z)"
  by (cases "zone_try e i tz") (auto simp: zone_item_def error_marker_def split: sum.splits)

lemma zone_item_failure:
  assumes "encodeURIComponent e tz = Some enc"
    and "upstream e i (GET (zone_url enc)) = Unreachable
         \<or> (\<exists>s b. upstream e i (GET (zone_url enc)) = Http s b \<and> (s < 200 \<or> 299 < s))"
  shows "snd (zone_item e i tz) = Failed \<lparr>ze_timezone = tz, ze_error = lit ''Failed to fetch''\<rparr>"
  using assms
  by (auto simp: zone_item_def zone_try_def fetchJSON_def read_response_def error_marker_def
        ok_def)

lemma zone_item_success:
  assumes "encodeURIComponent e tz = Some enc"
    and "upstream e i (GET (zone_url enc)) = Http s (Some data)" and "200 \<le> s \<and> s \<le> 299" and "data \<noteq> JNull"
  shows "snd (zone_item e i tz) =
     Success \<lparr>zt_timezone = tz,
              zt_dateTime = own data ''dateTime'',
              zt_date = own data ''date'',
              zt_time = own data ''time'',
              zt_dayOfWeek = own data ''dayOfWeek'',
              zt_dstActive = own data ''dstActive''\<rparr>"
  using assms
  by (simp add: zone_item_def zone_try_def fetchJSON_def read_response_def ok_def)

lemma zone_item_other_slot:
  "i \<noteq> k \<Longrightarrow> zone_item (e\<lparr>upstream := (upstream e)(k := f)\<rparr>) i tz = zone_item e i tz"
  by (simp add: zone_item_def zone_try_def fetchJSON_def split: option.splits)

lemma zone_item_timezone: "slot_timezone (snd (zone_item e i tz)) = tz"
  by (cases "zone_try e i tz")
     (auto simp: zone_item_def zone_try_def slot_timezone_def error_marker_def
           split: sum.splits option.splits if_splits)


text \<open>
  Claim C1. For every list of timezones the multi-zone handler returns (it never throws),
  with \<open>count\<close> and the number of slots equal to the length of the input. Slot \<open>i\<close> belongs
  to input \<open>i\<close>: it is a success object or the marker
  \<open>{timezone, error: 'Failed to fetch'}\<close>, whose \<open>timezone\<close> is input \<open>i\<close> and whose \<open>error\<close>
  is the text \<open>Failed to fetch\<close>; it is the marker when the upstream of slot \<open>i\<close>
  is not reached or answers with a status outside 200..299; it is the success object built
  from the body when the upstream answers 2xx with a body that is not \<open>null\<close>; and it is
  the same whatever the upstream of another slot \<open>k\<close> answers. The bounds 2 and 10 on the
  length are the schema's and are not needed.
\<close>

theorem multi_zone_one_slot_per_timezone:
  "\<exists>out. snd (multi_zone_handler e tzs) = Inr out
     \<and> mz_count out = length tzs
     \<and> length (mz_times out) = length tzs
     \<and> (\<forall>i<length tzs.
          (mz_times out ! i = Failed \<lparr>ze_timezone = tzs ! i, ze_error = lit ''Failed to fetch''\<rparr>
           \<or> (\<exists>z. mz_times out ! i = Success z))
        \<and> (\<forall>enc. encodeURIComponent e (tzs ! i) = Some enc
              \<and> (upstream e i (GET (zone_url enc)) = Unreachable
                  \<or> (\<exists>s b. upstream e i (GET (zone_url enc)) = Http s b \<and> (s < 200 \<or> 299 < s)))
              \<longrightarrow> mz_times out ! i =
                    Failed \<lparr>ze_timezone = tzs ! i, ze_error = lit ''Failed to fetch''\<rparr>)
        \<and> (\<forall>enc s data. encodeURIComponent e (tzs ! i) = Some enc
              \<and> upstream e i (GET (zone_url enc)) = Http s (Some data) \<and> 200 \<le> s \<and> s \<le> 299 \<and> data \<noteq> JNull
              \<longrightarrow> mz_times out ! i =
                    Success \<lparr>zt_timezone = tzs ! i,
                             zt_dateTime = own data ''dateTime'',
                             zt_date = own data ''date'',
                             zt_time = own data ''time'',
                             zt_dayOfWeek = own data ''dayOfWeek'',
                             zt_dstActive = own data ''dstActive''\<rparr>)
        \<and> (\<forall>k f out'. k \<noteq> i
              \<and> snd (multi_zone_handler (e\<lparr>upstream := (upstream e)(k := f)\<rparr>) tzs) = Inr out'
              \<longrightarrow> mz_times out' ! i = mz_times out ! i))"
proof -
  define run_of where
    "run_of e' = \<lparr>mz_count = length tzs,
                    mz_times = map (\<lambda>(i, tz). snd (zone_item e' i tz)) (enumerate 0 tzs),
                    mz_fetchedAt = toISOString e' (clock e' 0)\<rparr>" for e'
  define out where "out = run_of e"
  have run: "snd (multi_zone_handler e' tzs) = Inr (run_of e')" for e'
    by (simp add: multi_zone_handler_def Let_def run_of_def split_def comp_def)
  have slot': "mz_times (run_of e') ! i = snd (zone_item e' i (tzs ! i))" if "i < length tzs" for e' i
    using that by (simp add: run_of_def nth_enumerate_eq)
  note slot = slot' [of _ e, folded out_def]
  have sizes: "mz_count out = length tzs" "length (mz_times out) = length tzs"
    by (simp_all add: out_def run_of_def)
  have slots: "\<forall>i<length tzs.
          (mz_times out ! i = Failed \<lparr>ze_timezone = tzs ! i, ze_error = lit ''Failed to fetch''\<rparr>
           \<or> (\<exists>z. mz_times out ! i = Success z))
        \<and> (\<forall>enc. encodeURIComponent e (tzs ! i) = Some enc
              \<and> (upstream e i (GET (zone_url enc)) = Unreachable
                  \<or> (\<exists>s b. upstream e i (GET (zone_url enc)) = Http s b \<and> (s < 200 \<or> 299 < s)))
              \<longrightarrow> mz_times out ! i =
                    Failed \<lparr>ze_timezone = tzs ! i, ze_error = lit ''Failed to fetch''\<rparr>)
        \<and> (\<forall>enc s data. encodeURIComponent e (tzs ! i) = Some enc
              \<and> upstream e i (GET (zone_url enc)) = Http s (Some data) \<and> 200 \<le> s \<and> s \<le> 299 \<and> data \<noteq> JNull
              \<longrightarrow> mz_times out ! i =
                    Success \<lparr>zt_timezone = tzs ! i,
                             zt_dateTime = own data ''dateTime'',
                             zt_date = own data ''date'',
                             zt_time = own data ''time'',
                             zt_dayOfWeek = own data ''dayOfWeek'',
                             zt_dstActive = own data ''dstActive''\<rparr>)
        \<and> (\<forall>k f out'. k \<noteq> i
              \<and> snd (multi_zone_handler (e\<lparr>upstream := (upstream e)(k := f)\<rparr>) tzs) = Inr out'
              \<longrightarrow> mz_times out' ! i = mz_times out ! i)"
  proof (intro allI impI conjI)
    fix i assume i: "i < length tzs"
    show "mz_times out ! i = Failed \<lparr>ze_timezone = tzs ! i, ze_error = lit ''Failed to fetch''\<rparr>
          \<or> (\<exists>z. mz_times out ! i = Success z)"
      unfolding slot [OF i] by (rule zone_item_cases)
  next
    fix i enc assume i: "i < length tzs"
      and h: "encodeURIComponent e (tzs ! i) = Some enc
              \<and> (upstream e i (GET (zone_url enc)) = Unreachable
                  \<or> (\<exists>s b. upstream e i (GET (zone_url enc)) = Http s b \<and> (s < 200 \<or> 299 < s)))"
    show "mz_times out ! i = Failed \<lparr>ze_timezone = tzs ! i, ze_error = lit ''Failed to fetch''\<rparr>"
      unfolding slot [OF i] using h by (intro zone_item_failure) blast+
  next
    fix i enc s data assume i: "i < length tzs"
      and h: "encodeURIComponent e (tzs ! i) = Some enc
              \<and> upstream e i (GET (zone_url enc)) = Http s (Some data) \<and> 200 \<le> s \<and> s \<le> 299 \<and> data \<noteq> JNull"
    show "mz_times out ! i =
                    Success \<lparr>zt_timezone = tzs ! i,
                             zt_dateTime = own data ''dateTime'',
                             zt_date = own data ''date'',
                             zt_time = own data ''time'',
                             zt_dayOfWeek = own data ''dayOfWeek'',
                             zt_dstActive = own data ''dstActive''\<rparr>"
      unfolding slot [OF i] using h by (intro zone_item_success) blast+
  next
    fix i k f out' assume i: "i < length tzs"
      and h: "k \<noteq> i \<and> snd (multi_zone_handler (e\<lparr>upstream := (upstream e)(k := f)\<rparr>) tzs) = Inr out'"
    from h have out': "out' = run_of (e\<lparr>upstream := (upstream e)(k := f)\<rparr>)"
      unfolding run by simp
    show "mz_times out' ! i = mz_times out ! i"
      unfolding out' slot [OF i] slot' [OF i] using h by (simp add: zone_item_other_slot)
  qed
  have "snd (multi_zone_handler e tzs) = Inr out"
    unfolding out_def by (rule run)
  with sizes slots show ?thesis
    by blast
qed

theorem multi_zone_one_slot_per_timezone_witness:
  "\<exists>out out'.
       snd (multi_zone_handler sample_env [lit ''America/New_York'', lit ''Invalid/Zone'']) = Inr out
     \<and> mz_count out = 2
     \<and> mz_times out ! 0 =
         Success \<lparr>zt_timezone = lit ''America/New_York'',
                  zt_dateTime = Some (JStr (lit ''2026-05-01T04:00:00'')),
                  zt_date = Some (JStr (lit ''05/01/2026'')),
                  zt_time = Some (JStr (lit ''04:00'')),
                  zt_dayOfWeek = Some (JStr (lit ''Friday'')),
                  zt_dstActive = Some (JBool True)\<rparr>
     \<and> mz_times out ! 1 =
         Failed \<lparr>ze_timezone = lit ''Invalid/Zone'',
                 ze_error = [70, 97, 105, 108, 101, 100, 32, 116, 111, 32, 102, 101, 116, 99, 104]\<rparr>
     \<and> snd (multi_zone_handler
              (sample_env\<lparr>upstream := (upstream sample_env)(1 := \<lambda>r. Unreachable)\<rparr>)
              [lit ''America/New_York'', lit ''Invalid/Zone'']) = Inr out'
     \<and> mz_times out' ! 0 = mz_times out ! 0"
proof -
  let ?tzs = "[lit ''America/New_York'', lit ''Invalid/Zone'']"
  let ?e' = "sample_env\<lparr>upstream := (upstream sample_env)(1 := \<lambda>r. Unreachable)\<rparr>"
  obtain out where run: "snd (multi_zone_handler sample_env ?tzs) = Inr out"
    and count: "mz_count out = length ?tzs"
    and slots: "\<forall>i<length ?tzs.
          (mz_times out ! i = Failed \<lparr>ze_timezone = ?tzs ! i, ze_error = lit ''Failed to fetch''\<rparr>
           \<or> (\<exists>z. mz_times out ! i = Success z))
        \<and> (\<forall>enc. encodeURIComponent sample_env (?tzs ! i) = Some enc
              \<and> (upstream sample_env i (GET (zone_url enc)) = Unreachable
                  \<or> (\<exists>s b. upstream sample_env i (GET (zone_url enc)) = Http s b \<and> (s < 200 \<or> 299 < s)))
              \<longrightarrow> mz_times out ! i =
                    Failed \<lparr>ze_timezone = ?tzs ! i, ze_error = lit ''Failed to fetch''\<rparr>)
        \<and> (\<forall>enc s data. encodeURIComponent sample_env (?tzs ! i) = Some enc
              \<and> upstream sample_env i (GET (zone_url enc)) = Http s (Some data) \<and> 200 \<le> s \<and> s \<le> 299 \<and> data \<noteq> JNull
              \<longrightarrow> mz_times out ! i =
                    Success \<lparr>zt_timezone = ?tzs ! i,
                             zt_dateTime = own data ''dateTime'',
                             zt_date = own data ''date'',
                             zt_time = own data ''time'',
                             zt_dayOfWeek = own data ''dayOfWeek'',
                             zt_dstActive = own data ''dstActive''\<rparr>)
        \<and> (\<forall>k f out'. k \<noteq> i
              \<and> snd (multi_zone_handler (sample_env\<lparr>upstream := (upstream sample_env)(k := f)\<rparr>) ?tzs) = Inr out'
              \<longrightarrow> mz_times out' ! i = mz_times out ! i)"
    using multi_zone_one_slot_per_timezone [of sample_env ?tzs] by blast
  obtain out' where run': "snd (multi_zone_handler ?e' ?tzs) = Inr out'"
    by (simp add: multi_zone_handler_def Let_def)
  have enc: "encodeURIComponent sample_env tz = Some (encode_slash tz)" for tz
    by (simp add: sample_env_def)
  have up0: "upstream sample_env 0 (GET (zone_url (encode_slash (?tzs ! 0))))
               = Http 200 (Some new_york_body)"
    by (simp add: sample_env_def sample_upstream_def zone_url_def encode_slash_def lit_def)
  have up1: "upstream sample_env 1 (GET (zone_url (encode_slash (?tzs ! 1)))) = Http 400 None"
    by (simp add: sample_env_def sample_upstream_def zone_url_def encode_slash_def lit_def
          timezones_url_def countries_url_def convert_request_def)
  have s0: "mz_times out ! 0 =
         Success \<lparr>zt_timezone = ?tzs ! 0,
                  zt_dateTime = own new_york_body ''dateTime'',
                  zt_date = own new_york_body ''date'',
                  zt_time = own new_york_body ''time'',
                  zt_dayOfWeek = own new_york_body ''dayOfWeek'',
                  zt_dstActive = own new_york_body ''dstActive''\<rparr>"
    using slots [rule_format, of 0, THEN conjunct2, THEN conjunct2, THEN conjunct1,
        rule_format, of "encode_slash (?tzs ! 0)" 200 new_york_body] enc up0
    by (simp add: ok_def new_york_body_def)
  have s1: "mz_times out ! 1 =
      Failed \<lparr>ze_timezone = ?tzs ! 1, ze_error = lit ''Failed to fetch''\<rparr>"
    using slots [rule_format, of 1, THEN conjunct2, THEN conjunct1,
        rule_format, of "encode_slash (?tzs ! 1)"] enc up1
    by (simp add: ok_def)
  have same: "mz_times out' ! 0 = mz_times out ! 0"
    using slots [rule_format, of 0, THEN conjunct2, THEN conjunct2, THEN conjunct2,
        rule_format, of 1 "\<lambda>r. Unreachable" out'] run'
    by simp
  have body: "own new_york_body ''dateTime'' = Some (JStr (lit ''2026-05-01T04:00:00''))"
    "own new_york_body ''date'' = Some (JStr (lit ''05/01/2026''))"
    "own new_york_body ''time'' = Some (JStr (lit ''04:00''))"
    "own new_york_body ''dayOfWeek'' = Some (JStr (lit ''Friday''))"
    "own new_york_body ''dstActive'' = Some (JBool True)"
    by (simp_all add: own_def new_york_body_def lit_def)
  have marker: "lit ''Failed to fetch''
                  = [70, 97, 105, 108, 101, 100, 32, 116, 111, 32, 102, 101, 116, 99, 104]"
    by (simp add: lit_def)
  show ?thesis
    using run count s0 s1 run' same by (simp add: body marker)
qed

text \<open>
  Claim C9. In every result of the multi-zone handler the \<open>timezone\<close> fields of the slots,
  success objects and markers alike, are the input strings, in input order; nothing of
  the upstream's answer enters them.
\<close>

theorem multi_zone_echoes_input_timezone:
  "\<exists>out. snd (multi_zone_handler e tzs) = Inr out \<and> map slot_timezone (mz_times out) = tzs"
proof -
  have "map (slot_timezone \<circ> (snd \<circ> (\<lambda>(i, tz). zone_item e i tz))) (enumerate n tzs) = tzs" for n
    by (induction tzs arbitrary: n) (simp_all add: zone_item_timezone)
  then show ?thesis
    by (simp add: multi_zone_handler_def Let_def)
qed

section \<open>Convert: an answer without a conversion result\<close>

text \<open>
  Claim C4. When the upstream answers the convert call with a 2xx status and a JSON
  object that has no \<open>conversionResult\<close> field, the handler returns (it does not throw):
  the \<open>original\<close> block holds the object's \<open>fromTimezone\<close> and \<open>fromDateTime\<close>,
  \<open>converted.timezone\<close> its \<open>toTimeZone\<close>, and \<open>converted.dateTime\<close>, \<open>date\<close>, \<open>time\<close>,
  \<open>dayOfWeek\<close> and \<open>dstActive\<close> are \<open>undefined\<close>.
\<close>

theorem convert_without_conversionResult:
  assumes "upstream e 0 (convert_request fromTz toTz dt) = Http status (Some (JObj props))"
    and "ok status"
    and "map_of props (lit ''conversionResult'') = None"
  shows "\<exists>out. snd (convert_handler e fromTz toTz dt) = Inr out
           \<and> cv_original out =
               \<lparr>co_timezone = map_of props (lit ''fromTimezone''),
                co_dateTime = map_of props (lit ''fromDateTime'')\<rparr>
           \<and> cc_timezone (cv_converted out) = map_of props (lit ''toTimeZone'')
           \<and> cc_dateTime (cv_converted out) = None
           \<and> cc_date (cv_converted out) = None
           \<and> cc_time (cv_converted out) = None
           \<and> cc_dayOfWeek (cv_converted out) = None
           \<and> cc_dstActive (cv_converted out) = None"
  using assms
  by (simp add: convert_handler_def read_response_def own_def opt_member_def)

theorem convert_without_conversionResult_witness:
  "\<exists>out. snd (convert_handler sample_env (lit ''America/New_York'') (lit ''Europe/London'')
                 (lit ''2026-05-01 04:00:00'')) = Inr out
     \<and> cv_original out =
         \<lparr>co_timezone = Some (JStr (lit ''America/New_York'')),
          co_dateTime = Some (JStr (lit ''2026-05-01T04:00:00''))\<rparr>
     \<and> cv_converted out =
         \<lparr>cc_timezone = Some (JStr (lit ''Europe/London'')),
          cc_dateTime = None, cc_date = None, cc_time = None,
          cc_dayOfWeek = None, cc_dstActive = None\<rparr>"
proof -
  let ?fields = "[(lit ''fromTimezone'', JStr (lit ''America/New_York'')),
           (lit ''fromDateTime'', JStr (lit ''2026-05-01T04:00:00'')),
           (lit ''toTimeZone'', JStr (lit ''Europe/London''))]"
  have answer: "upstream sample_env 0
      (convert_request (lit ''America/New_York'') (lit ''Europe/London'') (lit ''2026-05-01 04:00:00''))
      = Http 200 (Some (JObj ?fields))"
    by (simp add: sample_env_def sample_upstream_def sample_conversion_def convert_request_def
          convert_url_def lit_def)
  have absent: "map_of ?fields (lit ''conversionResult'') = None"
    by (simp add: lit_def)
  have present: "map_of ?fields (lit ''fromTimezone'') = Some (JStr (lit ''America/New_York''))"
    "map_of ?fields (lit ''fromDateTime'') = Some (JStr (lit ''2026-05-01T04:00:00''))"
    "map_of ?fields (lit ''toTimeZone'') = Some (JStr (lit ''Europe/London''))"
    by (simp_all add: lit_def)
  have "ok 200" by (simp add: ok_def)
  from convert_without_conversionResult [OF answer this absent]
  show ?thesis
    unfolding present by (auto intro: convert_converted.equality)
qed

section \<open>Overview: counts and samples\<close>

text \<open>
  Claim C8. When both upstreams answer 2xx with a JSON array (the timezone list and the
  country list), the overview handler returns, as \<open>sampleTimezones\<close>, the 11 timezone
  names \<open>America/New_York\<close>, \<open>America/Los_Angeles\<close>, \<open>America/Chicago\<close>, \<open>Europe/London\<close>,
  \<open>Europe/Paris\<close>, \<open>Europe/Berlin\<close>, \<open>Asia/Tokyo\<close>, \<open>Asia/Shanghai\<close>, \<open>Asia/Singapore\<close>,
  \<open>Australia/Sydney\<close> and \<open>Pacific/Auckland\<close>, whatever the answers are; the lengths of the
  two arrays as \<open>totalTimezones\<close> and \<open>totalCountries\<close>; and the first 10 elements of the
  country array, in the order received, as \<open>sampleCountries\<close>.
\<close>

theorem overview_counts_and_samples:
  assumes "upstream e 0 (GET (lit ''https://timeapi.io/api/timezone/availabletimezones''))
             = Http s1 (Some (JArr timezones))"
    and "200 \<le> s1 \<and> s1 \<le> 299"
    and "upstream e 1 (GET (lit ''https://date.nager.at/api/v3/AvailableCountries''))
             = Http s2 (Some (JArr countries))"
    and "200 \<le> s2 \<and> s2 \<le> 299"
  shows "\<exists>out. snd (overview_handler e) = Inr out
           \<and> ov_sampleTimezones out =
               map lit
                 [''America/New_York'', ''America/Los_Angeles'', ''America/Chicago'',
                  ''Europe/London'', ''Europe/Paris'', ''Europe/Berlin'',
                  ''Asia/Tokyo'', ''Asia/Shanghai'', ''Asia/Singapore'',
                  ''Australia/Sydney'', ''Pacific/Auckland'']
           \<and> length (ov_sampleTimezones out) = 11
           \<and> ov_totalTimezones out = Some (JNum (of_nat (length timezones)))
           \<and> ov_totalCountries out = Some (JNum (of_nat (length countries)))
           \<and> ov_sampleCountries out = JArr (take 10 countries)"
  using assms
  by (simp add: overview_handler_def overview_output_def fetchJSON_def read_response_def
        promise_all2_def js_length_def js_slice0_def majorZones_def timezones_url_def
        countries_url_def ok_def)

theorem overview_counts_and_samples_witness:
  "\<exists>out. snd (overview_handler sample_env) = Inr out
     \<and> length (ov_sampleTimezones out) = 11
     \<and> ov_sampleTimezones out ! 0
         = [65, 109, 101, 114, 105, 99, 97, 47, 78, 101, 119, 95, 89, 111, 114, 107]
     \<and> ov_sampleTimezones out ! 10
         = [80, 97, 99, 105, 102, 105, 99, 47, 65, 117, 99, 107, 108, 97, 110, 100]
     \<and> ov_totalTimezones out = Some (JNum 3)
     \<and> ov_totalCountries out = Some (JNum 12)
     \<and> ov_sampleCountries out =
         JArr (map (\<lambda>c. JObj [(lit ''countryCode'', JStr (lit c))])
                [''AD'', ''AL'', ''AM'', ''AR'', ''AT'', ''AU'', ''AX'', ''BA'', ''BB'', ''BE''])"
proof -
  have timezones:
    "upstream sample_env 0 (GET (lit ''https://timeapi.io/api/timezone/availabletimezones''))
       = Http 200 (Some (JArr sample_timezones))"
    by (simp add: sample_env_def sample_upstream_def timezones_url_def lit_def)
  have countries:
    "upstream sample_env 1 (GET (lit ''https://date.nager.at/api/v3/AvailableCountries''))
       = Http 200 (Some (JArr sample_countries))"
    by (simp add: sample_env_def sample_upstream_def timezones_url_def countries_url_def lit_def)
  have status: "200 \<le> (200 :: nat) \<and> (200 :: nat) \<le> 299"
    by simp
  from overview_counts_and_samples [OF timezones status countries status]
  obtain out where run: "snd (overview_handler sample_env) = Inr out"
    and sample: "ov_sampleTimezones out =
               map lit
                 [''America/New_York'', ''America/Los_Angeles'', ''America/Chicago'',
                  ''Europe/London'', ''Europe/Paris'', ''Europe/Berlin'',
                  ''Asia/Tokyo'', ''Asia/Shanghai'', ''Asia/Singapore'',
                  ''Australia/Sydney'', ''Pacific/Auckland'']"
    and counts: "ov_totalTimezones out = Some (JNum (of_nat (length sample_timezones)))"
      "ov_totalCountries out = Some (JNum (of_nat (length sample_countries)))"
    and first_ten: "ov_sampleCountries out = JArr (take 10 sample_countries)"
    by (elim exE conjE)
  have "length (ov_sampleTimezones out) = 11"
    and "ov_sampleTimezones out ! 0
         = [65, 109, 101, 114, 105, 99, 97, 47, 78, 101, 119, 95, 89, 111, 114, 107]"
    and "ov_sampleTimezones out ! 10
         = [80, 97, 99, 105, 102, 105, 99, 47, 65, 117, 99, 107, 108, 97, 110, 100]"
    unfolding sample by (simp_all add: lit_def)
  moreover have "ov_totalTimezones out = Some (JNum 3)"
    and "ov_totalCountries out = Some (JNum 12)"
    unfolding counts by (simp_all add: sample_timezones_def sample_countries_def)
  moreover have "ov_sampleCountries out =
         JArr (map (\<lambda>c. JObj [(lit ''countryCode'', JStr (lit c))])
                [''AD'', ''AL'', ''AM'', ''AR'', ''AT'', ''AU'', ''AX'', ''BA'', ''BB'', ''BE''])"
    unfolding first_ten by (simp add: sample_countries_def)
  ultimately show ?thesis
    using run by (intro exI [of _ out] conjI)
qed

section \<open>Holidays: country code and year\<close>

text \<open>
  The handler returns when the upstream answers its call 2xx with an array without a
  \<open>null\<close> element; the sample upstream does so for the code \<open>us\<close> and the year 2026.
\<close>

lemma holidays_run:
  assumes "upstream e 0 (GET (holidays_url e (year_or_current e y) (toUpperCase e countryCode)))
             = Http s (Some (JArr items))" and "ok s" and "list_all (\<lambda>h. h \<noteq> JNull) items"
  shows "\<exists>out. snd (holidays_handler e countryCode y) = Inr out"
proof -
  have "\<exists>hs. map_throwing reshape_holiday items = Inr hs"
    using assms(3) by (induction items) (auto simp: reshape_holiday_def)
  then show ?thesis
    using assms(1,2)
    by (auto simp: holidays_handler_def Let_def fetchJSON_def read_response_def as_array_def)
qed

lemma sample_holidays_run:
  assumes "year_or_current sample_env y = 2026"
  shows "\<exists>out. snd (holidays_handler sample_env (lit ''us'') y) = Inr out"
proof (rule holidays_run)
  show "upstream sample_env 0
     (GET (holidays_url sample_env (year_or_current sample_env y) (toUpperCase sample_env (lit ''us''))))
     = Http 200 (Some (JArr [sample_holiday ''2026-01-01'' ''New Year Day'',
           sample_holiday ''2026-02-16'' ''Presidents Day'',
           sample_holiday ''2026-05-25'' ''Memorial Day'',
           sample_holiday ''2026-07-03'' ''Independence Day'',
           sample_holiday ''2026-09-07'' ''Labour Day'',
           sample_holiday ''2026-10-12'' ''Columbus Day'',
           sample_holiday ''2026-11-11'' ''Veterans Day'',
           sample_holiday ''2026-11-26'' ''Thanksgiving Day'',
           sample_holiday ''2026-12-25'' ''Christmas Day'']))"
    unfolding assms
    by (simp add: sample_env_def sample_upstream_def us_holidays_body_def holidays_url_def
          number_toString_def decimal.simps digit_def toUpperCase_def ascii_upper_def lit_def)
  show "ok 200" by (simp add: ok_def)
  show "list_all (\<lambda>h. h \<noteq> JNull) [sample_holiday ''2026-01-01'' ''New Year Day'',
           sample_holiday ''2026-02-16'' ''Presidents Day'',
           sample_holiday ''2026-05-25'' ''Memorial Day'',
           sample_holiday ''2026-07-03'' ''Independence Day'',
           sample_holiday ''2026-09-07'' ''Labour Day'',
           sample_holiday ''2026-10-12'' ''Columbus Day'',
           sample_holiday ''2026-11-11'' ''Veterans Day'',
           sample_holiday ''2026-11-26'' ''Thanksgiving Day'',
           sample_holiday ''2026-12-25'' ''Christmas Day'']"
    by (simp add: sample_holiday_def)
qed

text \<open>
  Claim C5. Whatever the case of the input country code, the one request the holidays
  handler issues ends in the upper-cased code, and the \<open>countryCode\<close> of every output is
  the same upper-cased code. The upper-cased code of an ASCII code has every code unit
  from \<open>a\<close> (97) to \<open>z\<close> (122) lowered by 32, to \<open>A\<close>..\<open>Z\<close>, and every other code unit
  unchanged (the input \<open>us\<close> gives \<open>US\<close>); that of a code with a code unit outside ASCII is
  the runtime's. The length 2 of the code is the schema's and is not needed.
\<close>

theorem holidays_upper_cases_country_code:
  "\<exists>upper.
      (list_all (\<lambda>c. c < 128) countryCode \<longrightarrow>
         upper = map (\<lambda>c. if 97 \<le> c \<and> c \<le> 122 then c - 32 else c) countryCode)
    \<and> (\<not> list_all (\<lambda>c. c < 128) countryCode \<longrightarrow>
         upper = toUpperCaseUnicode e countryCode)
    \<and> fst (holidays_handler e countryCode y) =
         [GET (lit ''https://date.nager.at/api/v3/publicholidays/''
               @ number_toString e (year_or_current e y) @ lit ''/'' @ upper)]
    \<and> (\<forall>out. snd (holidays_handler e countryCode y) = Inr out
           \<longrightarrow> hd_countryCode out = upper)"
proof -
  have letters: "ascii_upper = (\<lambda>c. if 97 \<le> c \<and> c \<le> 122 then c - 32 else c)"
    by (rule ext) (simp add: ascii_upper_def)
  have "list_all (\<lambda>c. c < 128) countryCode \<longrightarrow>
          toUpperCase e countryCode
            = map (\<lambda>c. if 97 \<le> c \<and> c \<le> 122 then c - 32 else c) countryCode"
    and "\<not> list_all (\<lambda>c. c < 128) countryCode \<longrightarrow>
          toUpperCase e countryCode = toUpperCaseUnicode e countryCode"
    by (simp_all add: toUpperCase_def letters)
  moreover have "fst (holidays_handler e countryCode y) =
         [GET (lit ''https://date.nager.at/api/v3/publicholidays/''
               @ number_toString e (year_or_current e y) @ lit ''/''
               @ toUpperCase e countryCode)]"
    by (simp add: holidays_handler_def Let_def holidays_url_def)
  moreover have "\<forall>out. snd (holidays_handler e countryCode y) = Inr out
           \<longrightarrow> hd_countryCode out = toUpperCase e countryCode"
    by (auto simp: holidays_handler_def Let_def split: sum.splits)
  ultimately show ?thesis
    by (intro exI [of _ "toUpperCase e countryCode"] conjI)
qed

theorem holidays_upper_cases_country_code_witness:
  "\<exists>out. holidays_handler sample_env [117, 115] (Some 2026) =
            ([GET (lit ''https://date.nager.at/api/v3/publicholidays/2026/US'')], Inr out)
     \<and> hd_countryCode out = [85, 83]"
proof -
  have us: "[117, 115] = lit ''us''"
    by (simp add: lit_def)
  have year: "year_or_current sample_env (Some 2026) = 2026"
    by (simp add: year_or_current_def)
  obtain out where out: "snd (holidays_handler sample_env (lit ''us'') (Some 2026)) = Inr out"
    using sample_holidays_run [OF year] by (rule exE)
  have shown: "number_toString sample_env 2026 = lit ''2026''"
    by (simp add: number_toString_def decimal.simps digit_def lit_def)
  from holidays_upper_cases_country_code [of "lit ''us''" sample_env "Some 2026"]
  obtain upper where
    ascii: "list_all (\<lambda>c. c < 128) (lit ''us'') \<longrightarrow>
         upper = map (\<lambda>c. if 97 \<le> c \<and> c \<le> 122 then c - 32 else c) (lit ''us'')"
    and issued: "fst (holidays_handler sample_env (lit ''us'') (Some 2026)) =
         [GET (lit ''https://date.nager.at/api/v3/publicholidays/''
               @ number_toString sample_env (year_or_current sample_env (Some 2026))
               @ lit ''/'' @ upper)]"
    and echo: "\<forall>out. snd (holidays_handler sample_env (lit ''us'') (Some 2026)) = Inr out
           \<longrightarrow> hd_countryCode out = upper"
    by (elim exE conjE)
  from ascii have upper: "upper = [85, 83]"
    by (simp add: lit_def)
  from issued have "fst (holidays_handler sample_env (lit ''us'') (Some 2026)) =
          [GET (lit ''https://date.nager.at/api/v3/publicholidays/2026/US'')]"
    unfolding year shown upper by (simp add: lit_def)
  moreover from echo out have "hd_countryCode out = [85, 83]"
    unfolding upper by simp
  ultimately show ?thesis
    unfolding us using out by (intro exI [of _ out] conjI) (simp add: prod_eq_iff)
qed





section \<open>Full report: the upcoming holidays\<close>

text \<open>\<open>str_lt\<close> is the lexicographic order on lists of code units.\<close>

lemma str_lt_less: "str_lt a b \<longleftrightarrow> a < b"
  by (induction a b rule: str_lt.induct) auto

lemma enumerate_member:
  assumes "(i, h) \<in> set (enumerate n xs)"
  shows "h \<in> set xs"
proof -
  have "snd ` set (enumerate n xs) = set xs"
    by (metis set_map map_snd_enumerate)
  moreover from assms have "h \<in> snd ` set (enumerate n xs)"
    by (metis image_eqI snd_conv)
  ultimately show ?thesis
    by simp
qed

lemma filter_throwing_is_upcoming:
  "filter_throwing (is_upcoming e today) items = Inr kept \<Longrightarrow>
     kept = filter (\<lambda>h. js_ge e (own h ''date'') today = Inr True) items"
  by (induction items arbitrary: kept)
     (auto simp: is_upcoming_def split: sum.splits if_splits)

lemma filter_throwing_total:
  "list_all (\<lambda>h. \<exists>d. own h ''date'' = Some (JStr d)) items \<Longrightarrow>
     filter_throwing (is_upcoming e today) items
       = Inr (filter (\<lambda>h. js_ge e (own h ''date'') today = Inr True) items)"
  by (induction items) (auto simp: is_upcoming_def js_ge_def own_def)

text \<open>When \<open>v >= today\<close> is true, case by case, in the lexicographic order of the library.\<close>

lemma js_ge_true:
  "js_ge e v today = Inr True \<longleftrightarrow>
     (case v of
        None \<Rightarrow> False
      | Some JNull \<Rightarrow> geNumber e 0 today
      | Some (JBool b) \<Rightarrow> geNumber e (if b then 1 else 0) today
      | Some (JNum q) \<Rightarrow> geNumber e q today
      | Some (JStr d) \<Rightarrow> today \<le> d
      | Some w \<Rightarrow> (case toPrimitive e w of None \<Rightarrow> False | Some p \<Rightarrow> today \<le> p))"
  by (auto simp: js_ge_def str_lt_less not_less split: option.splits json.splits)

lemma full_report_upcoming:
  assumes "snd (full_report_handler e tz countryCode) = Inr out"
  shows "\<exists>enc s items.
           encodeURIComponent e tz = Some enc
         \<and> upstream e 1 (GET (holidays_url e (of_int (getFullYear e (clock e 0)))
                                 (toUpperCase e countryCode))) = Http s (Some (JArr items))
         \<and> rc_upcomingHolidays (fr_country out) =
             map (upcoming_entry e 2)
               (enumerate 0 (take 5 (filter
                  (\<lambda>h. js_ge e (own h ''date'') (before_T (toISOString e (clock e 1))) = Inr True)
                  items)))"
proof -
  obtain enc where enc: "encodeURIComponent e tz = Some enc"
    using assms by (cases "encodeURIComponent e tz") (auto simp: full_report_handler_def full_report_output_def Let_def)
  let ?url2 = "holidays_url e (of_int (getFullYear e (clock e 0))) (toUpperCase e countryCode)"
  let ?today = "before_T (toISOString e (clock e 1))"
  from assms enc obtain timeData holidays where
    both: "promise_all2 (settles_first e) (fetchJSON e 0 (zone_url enc)) (fetchJSON e 1 ?url2)
             = Inr (timeData, holidays)"
    by (auto simp: full_report_handler_def full_report_output_def Let_def split: sum.splits)
  then have second: "fetchJSON e 1 ?url2 = Inr holidays"
    by (auto simp: promise_all2_def split: sum.splits)
  from assms enc both obtain items where items: "holidays = JArr items"
    by (auto simp: full_report_handler_def full_report_output_def Let_def as_array_def split: sum.splits json.splits)
  from second items obtain s where
    answer: "upstream e 1 (GET ?url2) = Http s (Some (JArr items))"
    by (auto simp: fetchJSON_def read_response_def split: response.splits if_splits option.splits)
  from assms enc both items obtain kept where
    kept: "filter_throwing (is_upcoming e ?today) items = Inr kept"
    and ups: "rc_upcomingHolidays (fr_country out) =
                map (upcoming_entry e 2) (enumerate 0 (take 5 kept))"
    by (auto simp: full_report_handler_def full_report_output_def Let_def as_array_def split: sum.splits if_splits)
  from filter_throwing_is_upcoming [OF kept] ups enc answer show ?thesis
    by blast
qed

lemma full_report_run:
  assumes "encodeURIComponent e tz = Some enc"
    and "upstream e 0 (GET (zone_url enc)) = Http s0 (Some timeData)" and "ok s0"
    and "timeData \<noteq> JNull"
    and "upstream e 1 (GET (holidays_url e (of_int (getFullYear e (clock e 0)))
                               (toUpperCase e countryCode))) = Http s1 (Some (JArr items))"
    and "ok s1" and "list_all (\<lambda>h. \<exists>d. own h ''date'' = Some (JStr d)) items"
  shows "\<exists>out. snd (full_report_handler e tz countryCode) = Inr out"
  using assms filter_throwing_total [OF assms(7), of e "before_T (toISOString e (clock e 1))"]
  by (simp add: full_report_handler_def full_report_output_def Let_def fetchJSON_def read_response_def
        promise_all2_def as_array_def)

text \<open>The run of the handler on the sample environment, piece by piece.\<close>

lemma sample_holiday_fields:
  "own (sample_holiday d n) ''date'' = Some (JStr (lit d))"
  "own (sample_holiday d n) ''name'' = Some (JStr (lit n))"
  by (simp_all add: own_def sample_holiday_def lit_def)

lemma sample_report_answers:
  "encodeURIComponent sample_env (lit ''America/New_York'') = Some (encode_slash (lit ''America/New_York''))"
  "upstream sample_env 0 (GET (zone_url (encode_slash (lit ''America/New_York''))))
     = Http 200 (Some new_york_body)"
  "upstream sample_env 1
     (GET (holidays_url sample_env (of_int (getFullYear sample_env (clock sample_env 0)))
             (toUpperCase sample_env (lit ''us''))))
     = Http 200 (Some us_holidays_body)"
  by (simp_all add: sample_env_def sample_upstream_def zone_url_def encode_slash_def
        holidays_url_def number_toString_def decimal.simps digit_def toUpperCase_def
        ascii_upper_def lit_def)

lemma sample_report_run:
  "\<exists>out. snd (full_report_handler sample_env (lit ''America/New_York'') (lit ''us'')) = Inr out"
proof (rule full_report_run)
  show "encodeURIComponent sample_env (lit ''America/New_York'')
          = Some (encode_slash (lit ''America/New_York''))"
    by (rule sample_report_answers)
  show "upstream sample_env 0 (GET (zone_url (encode_slash (lit ''America/New_York''))))
     = Http 200 (Some new_york_body)"
    by (rule sample_report_answers)
  show "upstream sample_env 1
     (GET (holidays_url sample_env (of_int (getFullYear sample_env (clock sample_env 0)))
             (toUpperCase sample_env (lit ''us''))))
     = Http 200 (Some (JArr [sample_holiday ''2026-01-01'' ''New Year Day'',
           sample_holiday ''2026-02-16'' ''Presidents Day'',
           sample_holiday ''2026-05-25'' ''Memorial Day'',
           sample_holiday ''2026-07-03'' ''Independence Day'',
           sample_holiday ''2026-09-07'' ''Labour Day'',
           sample_holiday ''2026-10-12'' ''Columbus Day'',
           sample_holiday ''2026-11-11'' ''Veterans Day'',
           sample_holiday ''2026-11-26'' ''Thanksgiving Day'',
           sample_holiday ''2026-12-25'' ''Christmas Day'']))"
    unfolding sample_report_answers us_holidays_body_def by (rule refl)
  show "ok 200" "ok 200" by (simp_all add: ok_def)
  show "new_york_body \<noteq> JNull" by (simp add: new_york_body_def)
  show "list_all (\<lambda>h. \<exists>d. own h ''date'' = Some (JStr d))
          [sample_holiday ''2026-01-01'' ''New Year Day'',
           sample_holiday ''2026-02-16'' ''Presidents Day'',
           sample_holiday ''2026-05-25'' ''Memorial Day'',
           sample_holiday ''2026-07-03'' ''Independence Day'',
           sample_holiday ''2026-09-07'' ''Labour Day'',
           sample_holiday ''2026-10-12'' ''Columbus Day'',
           sample_holiday ''2026-11-11'' ''Veterans Day'',
           sample_holiday ''2026-11-26'' ''Thanksgiving Day'',
           sample_holiday ''2026-12-25'' ''Christmas Day'']"
    by (simp add: sample_holiday_fields)
qed

lemma sample_today: "before_T (toISOString sample_env (clock sample_env 1)) = lit ''2026-05-01''"
  by (simp add: before_T_def sample_env_def lit_def)

lemma sample_passes:
  "js_ge sample_env (Some (JStr (lit ''2026-01-01''))) (lit ''2026-05-01'') = Inr False"
  "js_ge sample_env (Some (JStr (lit ''2026-02-16''))) (lit ''2026-05-01'') = Inr False"
  "js_ge sample_env (Some (JStr (lit ''2026-05-25''))) (lit ''2026-05-01'') = Inr True"
  "js_ge sample_env (Some (JStr (lit ''2026-07-03''))) (lit ''2026-05-01'') = Inr True"
  "js_ge sample_env (Some (JStr (lit ''2026-09-07''))) (lit ''2026-05-01'') = Inr True"
  "js_ge sample_env (Some (JStr (lit ''2026-10-12''))) (lit ''2026-05-01'') = Inr True"
  "js_ge sample_env (Some (JStr (lit ''2026-11-11''))) (lit ''2026-05-01'') = Inr True"
  "js_ge sample_env (Some (JStr (lit ''2026-11-26''))) (lit ''2026-05-01'') = Inr True"
  "js_ge sample_env (Some (JStr (lit ''2026-12-25''))) (lit ''2026-05-01'') = Inr True"
  by (simp_all add: js_ge_def lit_def)

lemma sample_first_five:
  "take 5 (filter (\<lambda>h. js_ge sample_env (own h ''date'') (lit ''2026-05-01'') = Inr True)
               [sample_holiday ''2026-01-01'' ''New Year Day'',
                sample_holiday ''2026-02-16'' ''Presidents Day'',
                sample_holiday ''2026-05-25'' ''Memorial Day'',
                sample_holiday ''2026-07-03'' ''Independence Day'',
                sample_holiday ''2026-09-07'' ''Labour Day'',
                sample_holiday ''2026-10-12'' ''Columbus Day'',
                sample_holiday ''2026-11-11'' ''Veterans Day'',
                sample_holiday ''2026-11-26'' ''Thanksgiving Day'',
                sample_holiday ''2026-12-25'' ''Christmas Day''])
   = [sample_holiday ''2026-05-25'' ''Memorial Day'',
      sample_holiday ''2026-07-03'' ''Independence Day'',
      sample_holiday ''2026-09-07'' ''Labour Day'',
      sample_holiday ''2026-10-12'' ''Columbus Day'',
      sample_holiday ''2026-11-11'' ''Veterans Day'']"
  by (simp add: sample_holiday_fields sample_passes)

text \<open>The same on Memorial Day, when the list has a holiday dated today.\<close>

lemma memorial_report_answers:
  "encodeURIComponent memorial_env (lit ''America/New_York'')
     = Some (encode_slash (lit ''America/New_York''))"
  "upstream memorial_env 0 (GET (zone_url (encode_slash (lit ''America/New_York''))))
     = Http 200 (Some new_york_body)"
  "upstream memorial_env 1
     (GET (holidays_url memorial_env (of_int (getFullYear memorial_env (clock memorial_env 0)))
             (toUpperCase memorial_env (lit ''us''))))
     = Http 200 (Some us_holidays_body)"
  by (simp_all add: memorial_env_def sample_env_def sample_upstream_def zone_url_def
        encode_slash_def holidays_url_def number_toString_def decimal.simps digit_def
        toUpperCase_def ascii_upper_def lit_def)

lemma memorial_report_run:
  "\<exists>out. snd (full_report_handler memorial_env (lit ''America/New_York'') (lit ''us'')) = Inr out"
proof (rule full_report_run)
  show "encodeURIComponent memorial_env (lit ''America/New_York'')
          = Some (encode_slash (lit ''America/New_York''))"
    by (rule memorial_report_answers)
  show "upstream memorial_env 0 (GET (zone_url (encode_slash (lit ''America/New_York''))))
     = Http 200 (Some new_york_body)"
    by (rule memorial_report_answers)
  show "upstream memorial_env 1
     (GET (holidays_url memorial_env (of_int (getFullYear memorial_env (clock memorial_env 0)))
             (toUpperCase memorial_env (lit ''us''))))
     = Http 200 (Some (JArr [sample_holiday ''2026-01-01'' ''New Year Day'',
           sample_holiday ''2026-02-16'' ''Presidents Day'',
           sample_holiday ''2026-05-25'' ''Memorial Day'',
           sample_holiday ''2026-07-03'' ''Independence Day'',
           sample_holiday ''2026-09-07'' ''Labour Day'',
           sample_holiday ''2026-10-12'' ''Columbus Day'',
           sample_holiday ''2026-11-11'' ''Veterans Day'',
           sample_holiday ''2026-11-26'' ''Thanksgiving Day'',
           sample_holiday ''2026-12-25'' ''Christmas Day'']))"
    unfolding memorial_report_answers us_holidays_body_def by (rule refl)
  show "ok 200" "ok 200" by (simp_all add: ok_def)
  show "new_york_body \<noteq> JNull" by (simp add: new_york_body_def)
  show "list_all (\<lambda>h. \<exists>d. own h ''date'' = Some (JStr d))
          [sample_holiday ''2026-01-01'' ''New Year Day'',
           sample_holiday ''2026-02-16'' ''Presidents Day'',
           sample_holiday ''2026-05-25'' ''Memorial Day'',
           sample_holiday ''2026-07-03'' ''Independence Day'',
           sample_holiday ''2026-09-07'' ''Labour Day'',
           sample_holiday ''2026-10-12'' ''Columbus Day'',
           sample_holiday ''2026-11-11'' ''Veterans Day'',
           sample_holiday ''2026-11-26'' ''Thanksgiving Day'',
           sample_holiday ''2026-12-25'' ''Christmas Day'']"
    by (simp add: sample_holiday_fields)
qed

lemma memorial_today:
  "takeWhile (\<lambda>c. c \<noteq> 84) (toISOString memorial_env (clock memorial_env 1)) = lit ''2026-05-25''"
  by (simp add: memorial_env_def lit_def)

lemma memorial_order:
  "lit ''2026-05-25'' \<le> lit ''2026-01-01'' \<longleftrightarrow> False"
  "lit ''2026-05-25'' \<le> lit ''2026-02-16'' \<longleftrightarrow> False"
  "lit ''2026-05-25'' \<le> lit ''2026-05-25'' \<longleftrightarrow> True"
  "lit ''2026-05-25'' \<le> lit ''2026-07-03'' \<longleftrightarrow> True"
  "lit ''2026-05-25'' \<le> lit ''2026-09-07'' \<longleftrightarrow> True"
  "lit ''2026-05-25'' \<le> lit ''2026-10-12'' \<longleftrightarrow> True"
  "lit ''2026-05-25'' \<le> lit ''2026-11-11'' \<longleftrightarrow> True"
  "lit ''2026-05-25'' \<le> lit ''2026-11-26'' \<longleftrightarrow> True"
  "lit ''2026-05-25'' \<le> lit ''2026-12-25'' \<longleftrightarrow> True"
  by (simp_all add: lit_def)

text \<open>
  Claim C2. In every output of the full-report handler the entries of \<open>upcomingHolidays\<close>
  carry the dates and names of the first at most 5 elements of the upstream's holiday
  array that pass \<open>date >= today\<close>, in the upstream's order, where today is the text of
  the clock (read after both answers) up to its first \<open>T\<close> (code unit 84), that is its
  \<open>YYYY-MM-DD\<close> part. A date that is a string passes when today is less than or equal to
  it in the lexicographic order on code units, so a holiday dated today passes; the
  other cases are those of the language's comparison. No entry has a date string
  lexicographically less than today, and there are at most 5 entries.
\<close>

theorem full_report_upcoming_holidays:
  assumes "snd (full_report_handler e tz countryCode) = Inr out"
  shows "\<exists>today s items.
           today = takeWhile (\<lambda>c. c \<noteq> 84) (toISOString e (clock e 1))
         \<and> upstream e 1 (GET (holidays_url e (of_int (getFullYear e (clock e 0)))
                                  (toUpperCase e countryCode))) = Http s (Some (JArr items))
         \<and> map (\<lambda>u. (up_date u, up_name u)) (rc_upcomingHolidays (fr_country out)) =
             map (\<lambda>h. (own h ''date'', own h ''name''))
               (take 5 (filter
                  (\<lambda>h. case own h ''date'' of
                          None \<Rightarrow> False
                        | Some JNull \<Rightarrow> geNumber e 0 today
                        | Some (JBool b) \<Rightarrow> geNumber e (if b then 1 else 0) today
                        | Some (JNum q) \<Rightarrow> geNumber e q today
                        | Some (JStr d) \<Rightarrow> today \<le> d
                        | Some w \<Rightarrow>
                            (case toPrimitive e w of None \<Rightarrow> False | Some p \<Rightarrow> today \<le> p))
                  items))
         \<and> (\<forall>u \<in> set (rc_upcomingHolidays (fr_country out)).
               \<forall>d. up_date u = Some (JStr d) \<longrightarrow> \<not> d < today)
         \<and> length (rc_upcomingHolidays (fr_country out)) \<le> 5"
proof -
  define today where "today = takeWhile (\<lambda>c. c \<noteq> 84) (toISOString e (clock e 1))"
  define passes where "passes = (\<lambda>h. js_ge e (own h ''date'') today = Inr True)"
  from full_report_upcoming [OF assms] obtain s items where
    answer: "upstream e 1 (GET (holidays_url e (of_int (getFullYear e (clock e 0)))
                                  (toUpperCase e countryCode))) = Http s (Some (JArr items))"
    and ups: "rc_upcomingHolidays (fr_country out) =
                map (upcoming_entry e 2) (enumerate 0 (take 5 (filter passes items)))"
    unfolding passes_def today_def before_T_def by (elim exE conjE)
  have fields: "map (\<lambda>u. (up_date u, up_name u)) (map (upcoming_entry e k) (enumerate n hs))
                  = map (\<lambda>h. (own h ''date'', own h ''name'')) hs" for k n hs
    by (induction hs arbitrary: n) (simp_all add: upcoming_entry_def)
  have no_earlier: "\<not> d < today" if u: "u \<in> set (rc_upcomingHolidays (fr_country out))"
    and d: "up_date u = Some (JStr d)" for u d
  proof -
    from u obtain i h where "u = upcoming_entry e 2 (i, h)"
      and "(i, h) \<in> set (enumerate 0 (take 5 (filter passes items)))"
      unfolding ups by auto
    then have "h \<in> set (take 5 (filter passes items))" and "up_date u = own h ''date''"
      by (auto simp: upcoming_entry_def dest: enumerate_member)
    then have "passes h" and "up_date u = own h ''date''"
      by (auto dest: in_set_takeD)
    with d have "js_ge e (Some (JStr d)) today = Inr True"
      by (simp add: passes_def)
    then show ?thesis
      by (simp add: js_ge_def str_lt_less)
  qed
  have at_most: "length (rc_upcomingHolidays (fr_country out)) \<le> 5"
    unfolding ups by simp
  have entries: "map (\<lambda>u. (up_date u, up_name u)) (rc_upcomingHolidays (fr_country out)) =
               map (\<lambda>h. (own h ''date'', own h ''name'')) (take 5 (filter passes items))"
    unfolding ups by (rule fields)
  have spelled: "passes =
      (\<lambda>h. case own h ''date'' of
              None \<Rightarrow> False
            | Some JNull \<Rightarrow> geNumber e 0 today
            | Some (JBool b) \<Rightarrow> geNumber e (if b then 1 else 0) today
            | Some (JNum q) \<Rightarrow> geNumber e q today
            | Some (JStr d) \<Rightarrow> today \<le> d
            | Some w \<Rightarrow> (case toPrimitive e w of None \<Rightarrow> False | Some p \<Rightarrow> today \<le> p))"
    unfolding passes_def js_ge_true by (rule refl)
  show ?thesis
    using today_def answer entries [unfolded spelled] no_earlier at_most
    by (intro exI [of _ today] exI [of _ s] exI [of _ items] conjI ballI allI impI)
qed

theorem full_report_upcoming_holidays_witness:
  "\<exists>out. snd (full_report_handler memorial_env (lit ''America/New_York'') (lit ''us'')) = Inr out
     \<and> map (\<lambda>u. (up_date u, up_name u)) (rc_upcomingHolidays (fr_country out)) =
         [(Some (JStr (lit ''2026-05-25'')), Some (JStr (lit ''Memorial Day''))),
          (Some (JStr (lit ''2026-07-03'')), Some (JStr (lit ''Independence Day''))),
          (Some (JStr (lit ''2026-09-07'')), Some (JStr (lit ''Labour Day''))),
          (Some (JStr (lit ''2026-10-12'')), Some (JStr (lit ''Columbus Day''))),
          (Some (JStr (lit ''2026-11-11'')), Some (JStr (lit ''Veterans Day'')))]"
proof -
  obtain out where
    run: "snd (full_report_handler memorial_env (lit ''America/New_York'') (lit ''us'')) = Inr out"
    using memorial_report_run by (rule exE)
  from full_report_upcoming_holidays [OF run] obtain today s items where
    today: "today = lit ''2026-05-25''"
    and answer: "Http 200 (Some us_holidays_body) = Http s (Some (JArr items))"
    and entries: "map (\<lambda>u. (up_date u, up_name u)) (rc_upcomingHolidays (fr_country out)) =
          map (\<lambda>h. (own h ''date'', own h ''name''))
            (take 5 (filter
               (\<lambda>h. case own h ''date'' of
                       None \<Rightarrow> False
                     | Some JNull \<Rightarrow> geNumber memorial_env 0 today
                     | Some (JBool b) \<Rightarrow> geNumber memorial_env (if b then 1 else 0) today
                     | Some (JNum q) \<Rightarrow> geNumber memorial_env q today
                     | Some (JStr d) \<Rightarrow> today \<le> d
                     | Some w \<Rightarrow>
                         (case toPrimitive memorial_env w of
                            None \<Rightarrow> False | Some p \<Rightarrow> today \<le> p))
               items))"
    unfolding memorial_report_answers memorial_today by (elim exE conjE)
  from answer have items: "items =
               [sample_holiday ''2026-01-01'' ''New Year Day'',
                sample_holiday ''2026-02-16'' ''Presidents Day'',
                sample_holiday ''2026-05-25'' ''Memorial Day'',
                sample_holiday ''2026-07-03'' ''Independence Day'',
                sample_holiday ''2026-09-07'' ''Labour Day'',
                sample_holiday ''2026-10-12'' ''Columbus Day'',
                sample_holiday ''2026-11-11'' ''Veterans Day'',
                sample_holiday ''2026-11-26'' ''Thanksgiving Day'',
                sample_holiday ''2026-12-25'' ''Christmas Day'']"
    unfolding us_holidays_body_def by simp
  have "map (\<lambda>u. (up_date u, up_name u)) (rc_upcomingHolidays (fr_country out)) =
         [(Some (JStr (lit ''2026-05-25'')), Some (JStr (lit ''Memorial Day''))),
          (Some (JStr (lit ''2026-07-03'')), Some (JStr (lit ''Independence Day''))),
          (Some (JStr (lit ''2026-09-07'')), Some (JStr (lit ''Labour Day''))),
          (Some (JStr (lit ''2026-10-12'')), Some (JStr (lit ''Columbus Day''))),
          (Some (JStr (lit ''2026-11-11'')), Some (JStr (lit ''Veterans Day'')))]"
    unfolding entries items today by (simp add: sample_holiday_fields memorial_order)
  with run show ?thesis
    by (intro exI [of _ out] conjI)
qed
section \<open>Full report: days until a holiday\<close>

text \<open>
  \<open>days_until\<close> gives the one whole number \<open>d\<close> of days with
  \<open>d - 1 < (t - now) / 86400000 \<le> d\<close>.
\<close>

lemma days_until_eq:
  assumes "86400000 * (d - 1) < t - now" and "t - now \<le> 86400000 * d"
  shows "days_until (Some t) now = Some d"
proof -
  from assms have "(of_int (86400000 * (d - 1)) :: rat) < of_int (t - now)"
    and "(of_int (t - now) :: rat) \<le> of_int (86400000 * d)"
    by (simp_all only: of_int_less_iff of_int_le_iff)
  then have "of_int d - 1 < (of_int (t - now) :: rat) / 86400000"
    and "(of_int (t - now) :: rat) / 86400000 \<le> of_int d"
    by (simp_all add: pos_less_divide_eq pos_divide_le_eq mult.commute)
  then have "\<lceil>(of_int (t - now) :: rat) / 86400000\<rceil> = d"
    by (rule ceiling_unique)
  then show ?thesis
    by (simp add: days_until_def)
qed

lemma days_until_bracket:
  assumes "days_until (Some t) now = Some d"
  shows "86400000 * (d - 1) < t - now \<and> t - now \<le> 86400000 * d"
proof -
  define r :: rat where "r = of_int (t - now) / 86400000"
  from assms have d: "d = \<lceil>r\<rceil>"
    by (simp add: days_until_def r_def)
  have "of_int d - 1 < r" and "r \<le> of_int d"
    unfolding d by (simp_all add: ceiling_correct)
  then have "(of_int d - 1) * 86400000 < (of_int (t - now) :: rat)"
    and "(of_int (t - now) :: rat) \<le> of_int d * 86400000"
    by (simp_all add: r_def pos_less_divide_eq pos_divide_le_eq)
  then have "(of_int ((d - 1) * 86400000) :: rat) < of_int (t - now)"
    and "(of_int (t - now) :: rat) \<le> of_int (d * 86400000)"
    by simp_all
  then have "(d - 1) * 86400000 < t - now" and "t - now \<le> d * 86400000"
    by (simp_all only: of_int_less_iff of_int_le_iff)
  then show ?thesis
    by (simp add: mult.commute)
qed

lemma upcoming_entry_nth:
  assumes "i < length hs"
  shows "map (upcoming_entry e k) (enumerate 0 hs) ! i =
           \<lparr>up_date = own (hs ! i) ''date'', up_name = own (hs ! i) ''name'',
            up_daysUntil = days_until (dateValue e (own (hs ! i) ''date'')) (clock e (k + i))\<rparr>"
  using assms by (simp add: nth_enumerate_eq upcoming_entry_def)

lemma full_report_entry:
  assumes "snd (full_report_handler e tz countryCode) = Inr out"
    and "i < length (rc_upcomingHolidays (fr_country out))"
  shows "up_daysUntil (rc_upcomingHolidays (fr_country out) ! i) =
           days_until (dateValue e (up_date (rc_upcomingHolidays (fr_country out) ! i)))
             (clock e (2 + i))"
proof -
  from full_report_upcoming [OF assms(1)] obtain hs where
    ups: "rc_upcomingHolidays (fr_country out) = map (upcoming_entry e 2) (enumerate 0 hs)"
    by (elim exE conjE)
  with assms(2) have "i < length hs"
    by simp
  from upcoming_entry_nth [OF this, of e 2] show ?thesis
    unfolding ups by simp
qed

lemma sample_report_upcoming:
  assumes "snd (full_report_handler sample_env (lit ''America/New_York'') (lit ''us'')) = Inr out"
  shows "rc_upcomingHolidays (fr_country out) =
           map (upcoming_entry sample_env 2)
             (enumerate 0
                [sample_holiday ''2026-05-25'' ''Memorial Day'',
                 sample_holiday ''2026-07-03'' ''Independence Day'',
                 sample_holiday ''2026-09-07'' ''Labour Day'',
                 sample_holiday ''2026-10-12'' ''Columbus Day'',
                 sample_holiday ''2026-11-11'' ''Veterans Day''])"
proof -
  from full_report_upcoming [OF assms] obtain s items where
    answer: "Http 200 (Some us_holidays_body) = Http s (Some (JArr items))"
    and ups: "rc_upcomingHolidays (fr_country out) =
          map (upcoming_entry sample_env 2)
            (enumerate 0 (take 5
               (filter (\<lambda>h. js_ge sample_env (own h ''date'') (lit ''2026-05-01'') = Inr True)
                  items)))"
    unfolding sample_report_answers sample_today by (elim exE conjE)
  from answer have items: "items =
               [sample_holiday ''2026-01-01'' ''New Year Day'',
                sample_holiday ''2026-02-16'' ''Presidents Day'',
                sample_holiday ''2026-05-25'' ''Memorial Day'',
                sample_holiday ''2026-07-03'' ''Independence Day'',
                sample_holiday ''2026-09-07'' ''Labour Day'',
                sample_holiday ''2026-10-12'' ''Columbus Day'',
                sample_holiday ''2026-11-11'' ''Veterans Day'',
                sample_holiday ''2026-11-26'' ''Thanksgiving Day'',
                sample_holiday ''2026-12-25'' ''Christmas Day'']"
    unfolding us_holidays_body_def by simp
  show ?thesis
    unfolding ups items sample_first_five by (rule refl)
qed

lemma late_answers:
  "encodeURIComponent late_env tz = Some (encode_slash tz)"
  "upstream late_env 0 r = Http 200 (Some new_york_body)"
  "upstream late_env 1 r =
     Http 200 (Some (JArr [sample_holiday ''2026-11-11T00:00:00'' ''Local Day'',
                           sample_holiday ''2026-11-11'' ''Veterans Day'']))"
  "before_T (toISOString late_env t) = lit ''2026-11-11''"
  "clock late_env n = 1794438000000"
  "dateValue late_env (Some (JStr (lit ''2026-11-11T00:00:00''))) = Some 1794304800000"
  "dateValue late_env (Some (JStr (lit ''2026-11-11''))) = Some 1794355200000"
  by (simp_all add: late_env_def sample_env_def before_T_def sample_dates_def lit_def)

lemma late_passes:
  "js_ge late_env (Some (JStr (lit ''2026-11-11T00:00:00''))) (lit ''2026-11-11'') = Inr True"
  "js_ge late_env (Some (JStr (lit ''2026-11-11''))) (lit ''2026-11-11'') = Inr True"
  by (simp_all add: js_ge_def lit_def)

lemma late_report:
  "\<exists>out. snd (full_report_handler late_env (lit ''America/New_York'') (lit ''us'')) = Inr out
     \<and> map up_daysUntil (rc_upcomingHolidays (fr_country out)) = [Some (- 1), Some 0]"
proof -
  have "\<exists>out. snd (full_report_handler late_env (lit ''America/New_York'') (lit ''us'')) = Inr out"
  proof (rule full_report_run)
    show "encodeURIComponent late_env (lit ''America/New_York'')
            = Some (encode_slash (lit ''America/New_York''))"
      by (rule late_answers)
    show "upstream late_env 0 (GET (zone_url (encode_slash (lit ''America/New_York''))))
            = Http 200 (Some new_york_body)"
      by (rule late_answers)
    show "upstream late_env 1
            (GET (holidays_url late_env (of_int (getFullYear late_env (clock late_env 0)))
                   (toUpperCase late_env (lit ''us''))))
          = Http 200 (Some (JArr [sample_holiday ''2026-11-11T00:00:00'' ''Local Day'',
                                  sample_holiday ''2026-11-11'' ''Veterans Day'']))"
      by (rule late_answers)
    show "ok 200" "ok 200" by (simp_all add: ok_def)
    show "new_york_body \<noteq> JNull" by (simp add: new_york_body_def)
    show "list_all (\<lambda>h. \<exists>d. own h ''date'' = Some (JStr d))
            [sample_holiday ''2026-11-11T00:00:00'' ''Local Day'',
             sample_holiday ''2026-11-11'' ''Veterans Day'']"
      by (simp add: sample_holiday_fields)
  qed
  then obtain out where
    run: "snd (full_report_handler late_env (lit ''America/New_York'') (lit ''us'')) = Inr out"
    by (rule exE)
  from full_report_upcoming [OF run] obtain s items where
    answer: "Http 200 (Some (JArr [sample_holiday ''2026-11-11T00:00:00'' ''Local Day'',
                                   sample_holiday ''2026-11-11'' ''Veterans Day'']))
               = Http s (Some (JArr items))"
    and ups: "rc_upcomingHolidays (fr_country out) =
          map (upcoming_entry late_env 2)
            (enumerate 0 (take 5
               (filter (\<lambda>h. js_ge late_env (own h ''date'') (lit ''2026-11-11'') = Inr True)
                  items)))"
    unfolding late_answers by (elim exE conjE)
  from answer have items: "items = [sample_holiday ''2026-11-11T00:00:00'' ''Local Day'',
                                    sample_holiday ''2026-11-11'' ''Veterans Day'']"
    by simp
  have early: "days_until (Some 1794304800000) 1794438000000 = Some (- 1)"
    by (rule days_until_eq) simp_all
  have same_day: "days_until (Some 1794355200000) 1794438000000 = Some 0"
    by (rule days_until_eq) simp_all
  have "map up_daysUntil (rc_upcomingHolidays (fr_country out)) = [Some (- 1), Some 0]"
    unfolding ups items
    by (simp add: sample_holiday_fields late_passes upcoming_entry_def late_answers
          early same_day)
  with run show ?thesis
    by (intro exI [of _ out] conjI)
qed

lemma whole_days_unique:
  fixes d k m :: int
  assumes "86400000 * (d - 1) < m" and "m \<le> 86400000 * d"
    and "86400000 * (k - 1) < m" and "m \<le> 86400000 * k"
  shows "d = k"
proof -
  from assms have "86400000 * (d - 1) < 86400000 * k" and "86400000 * (k - 1) < 86400000 * d"
    by linarith+
  then have "d - 1 < k" and "k - 1 < d"
    by simp_all
  then show ?thesis
    by linarith
qed

text \<open>
  Claim C6. In every output of the full-report handler, \<open>daysUntil\<close> of the entry at
  index \<open>i\<close> is the ceiling of (time value of the entry's date minus the clock reading
  taken for that entry) divided by 86400000, and \<open>NaN\<close> when the date has no time value;
  so it is the whole number \<open>d\<close> with \<open>86400000 (d - 1) < t - now \<le> 86400000 d\<close>. There are
  runs in which it is 0 and runs in which it is negative.
\<close>

theorem full_report_days_until:
  "(\<forall>out. snd (full_report_handler e tz countryCode) = Inr out \<longrightarrow>
      (\<forall>i < length (rc_upcomingHolidays (fr_country out)).
          up_daysUntil (rc_upcomingHolidays (fr_country out) ! i) =
            map_option (\<lambda>t. \<lceil>(of_int (t - clock e (2 + i)) :: rat) / 86400000\<rceil>)
              (dateValue e (up_date (rc_upcomingHolidays (fr_country out) ! i)))
        \<and> (\<forall>t d. dateValue e (up_date (rc_upcomingHolidays (fr_country out) ! i)) = Some t
                \<and> up_daysUntil (rc_upcomingHolidays (fr_country out) ! i) = Some d
              \<longrightarrow> 86400000 * (d - 1) < t - clock e (2 + i)
                \<and> t - clock e (2 + i) \<le> 86400000 * d)))
   \<and> (\<exists>e' tz' code' out u.
         snd (full_report_handler e' tz' code') = Inr out
       \<and> u \<in> set (rc_upcomingHolidays (fr_country out)) \<and> up_daysUntil u = Some 0)
   \<and> (\<exists>e' tz' code' out u d.
         snd (full_report_handler e' tz' code') = Inr out
       \<and> u \<in> set (rc_upcomingHolidays (fr_country out)) \<and> up_daysUntil u = Some d \<and> d < 0)"
proof (intro conjI allI impI)
  fix out i
  assume run: "snd (full_report_handler e tz countryCode) = Inr out"
    and i: "i < length (rc_upcomingHolidays (fr_country out))"
  note entry = full_report_entry [OF run i]
  show "up_daysUntil (rc_upcomingHolidays (fr_country out) ! i) =
            map_option (\<lambda>t. \<lceil>(of_int (t - clock e (2 + i)) :: rat) / 86400000\<rceil>)
              (dateValue e (up_date (rc_upcomingHolidays (fr_country out) ! i)))"
    unfolding entry by (simp add: days_until_def)
  fix t d
  assume "dateValue e (up_date (rc_upcomingHolidays (fr_country out) ! i)) = Some t
          \<and> up_daysUntil (rc_upcomingHolidays (fr_country out) ! i) = Some d"
  with entry have "days_until (Some t) (clock e (2 + i)) = Some d"
    by simp
  from days_until_bracket [OF this]
  show "86400000 * (d - 1) < t - clock e (2 + i)" and "t - clock e (2 + i) \<le> 86400000 * d"
    by simp_all
next
  from late_report obtain out where
    run: "snd (full_report_handler late_env (lit ''America/New_York'') (lit ''us'')) = Inr out"
    and days: "map up_daysUntil (rc_upcomingHolidays (fr_country out)) = [Some (- 1), Some 0]"
    by (elim exE conjE)
  from days have "Some 0 \<in> up_daysUntil ` set (rc_upcomingHolidays (fr_country out))"
    by (metis list.set_intros(1,2) set_map)
  then obtain u where "u \<in> set (rc_upcomingHolidays (fr_country out))" "up_daysUntil u = Some 0"
    by auto
  with run show "\<exists>e' tz' code' out u.
         snd (full_report_handler e' tz' code') = Inr out
       \<and> u \<in> set (rc_upcomingHolidays (fr_country out)) \<and> up_daysUntil u = Some 0"
    by (intro exI conjI)
next
  from late_report obtain out where
    run: "snd (full_report_handler late_env (lit ''America/New_York'') (lit ''us'')) = Inr out"
    and days: "map up_daysUntil (rc_upcomingHolidays (fr_country out)) = [Some (- 1), Some 0]"
    by (elim exE conjE)
  from days have "Some (- 1) \<in> up_daysUntil ` set (rc_upcomingHolidays (fr_country out))"
    by (metis list.set_intros(1) set_map)
  then obtain u where "u \<in> set (rc_upcomingHolidays (fr_country out))"
    and "up_daysUntil u = Some (- 1)"
    by auto
  moreover have "(- 1 :: int) < 0"
    by simp
  ultimately show "\<exists>e' tz' code' out u d.
         snd (full_report_handler e' tz' code') = Inr out
       \<and> u \<in> set (rc_upcomingHolidays (fr_country out)) \<and> up_daysUntil u = Some d \<and> d < 0"
    using run by (intro exI conjI)
qed

theorem full_report_days_until_witness:
  "\<exists>out. snd (full_report_handler sample_env (lit ''America/New_York'') (lit ''us'')) = Inr out
     \<and> length (rc_upcomingHolidays (fr_country out)) = 5
     \<and> up_date (rc_upcomingHolidays (fr_country out) ! 0) = Some (JStr (lit ''2026-05-25''))
     \<and> up_daysUntil (rc_upcomingHolidays (fr_country out) ! 0) = Some 24
     \<and> up_date (rc_upcomingHolidays (fr_country out) ! 4) = Some (JStr (lit ''2026-11-11''))
     \<and> up_daysUntil (rc_upcomingHolidays (fr_country out) ! 4) = Some 194"
proof -
  obtain out where
    run: "snd (full_report_handler sample_env (lit ''America/New_York'') (lit ''us'')) = Inr out"
    using sample_report_run by (rule exE)
  note ups = sample_report_upcoming [OF run]
  have len: "length (rc_upcomingHolidays (fr_country out)) = 5"
    unfolding ups by simp
  have first: "up_date (rc_upcomingHolidays (fr_country out) ! 0) = Some (JStr (lit ''2026-05-25''))"
    and last: "up_date (rc_upcomingHolidays (fr_country out) ! 4) = Some (JStr (lit ''2026-11-11''))"
    unfolding ups by (simp_all add: upcoming_entry_def sample_holiday_fields)
  have stamps: "dateValue sample_env (Some (JStr (lit ''2026-05-25''))) = Some 1779667200000"
    "dateValue sample_env (Some (JStr (lit ''2026-11-11''))) = Some 1794355200000"
    by (simp_all add: sample_env_def sample_dates_def lit_def)
  have now: "clock sample_env n = 1777622400000" for n
    by (simp add: sample_env_def)
  note days = full_report_days_until [of sample_env "lit ''America/New_York''" "lit ''us''",
      THEN conjunct1, rule_format, OF run]
  have i0: "0 < length (rc_upcomingHolidays (fr_country out))"
    and i4: "4 < length (rc_upcomingHolidays (fr_country out))"
    unfolding len by simp_all
  from days [OF i0, THEN conjunct1] obtain d0 where
    d0: "up_daysUntil (rc_upcomingHolidays (fr_country out) ! 0) = Some d0"
    unfolding first stamps by simp
  from days [OF i0, THEN conjunct2, rule_format, of 1779667200000 d0] d0
  have "86400000 * (d0 - 1) < 2044800000 \<and> 2044800000 \<le> 86400000 * d0"
    unfolding first stamps now by simp
  then have "d0 = 24"
    by (intro whole_days_unique [of d0 2044800000 24]) simp_all
  from days [OF i4, THEN conjunct1] obtain d4 where
    d4: "up_daysUntil (rc_upcomingHolidays (fr_country out) ! 4) = Some d4"
    unfolding last stamps by simp
  from days [OF i4, THEN conjunct2, rule_format, of 1794355200000 d4] d4
  have "86400000 * (d4 - 1) < 16732800000 \<and> 16732800000 \<le> 86400000 * d4"
    unfolding last stamps now by simp
  then have "d4 = 194"
    by (intro whole_days_unique [of d4 16732800000 194]) simp_all
  from run len first last d0 d4 \<open>d0 = 24\<close> \<open>d4 = 194\<close> show ?thesis
    by (intro exI [of _ out] conjI) simp_all
qed

section \<open>Upstream failures propagate\<close>

text \<open>
  Reading a response gives the rejection of the call or its JSON body, and the code of a
  handler after its calls throws a \<open>TypeError\<close> exactly on the bodies it cannot read.
\<close>

lemma read_response_rejection:
  "read_response r = (case rejection r of Some err \<Rightarrow> Inl err | None \<Rightarrow> Inr (json_body r))"
  by (auto simp: read_response_def rejection_def json_body_def api_error_def ok_def
        split: response.splits option.splits)

lemma surfaces1_read:
  assumes "res = (case read_response r of Inl err \<Rightarrow> Inl err | Inr v \<Rightarrow> k v)"
    and "\<And>v. readable v \<Longrightarrow> \<not> isl (k v)"
    and "\<And>v. \<not> readable v \<Longrightarrow> k v = Inl TypeError"
  shows "surfaces1 r readable res"
  using assms by (simp add: surfaces1_def read_response_rejection split: option.splits)

lemma surfaces2_read:
  assumes "res = (case promise_all2 f (fetchJSON e 0 a) (fetchJSON e 1 b) of
                    Inl err \<Rightarrow> Inl err | Inr p \<Rightarrow> k (fst p) (snd p))"
    and "\<And>v w. readable v w \<Longrightarrow> \<not> isl (k v w)"
    and "\<And>v w. \<not> readable v w \<Longrightarrow> k v w = Inl TypeError"
  shows "surfaces2 f (upstream e 0 (GET a)) (upstream e 1 (GET b)) readable res"
  using assms
  by (simp add: surfaces2_def fetchJSON_def read_response_rejection promise_all2_def
        split: option.splits)

lemma map_throwing_reshape:
  "map_throwing reshape_holiday items =
     (if JNull \<in> set items then Inl TypeError
      else Inr (map (\<lambda>h. \<lparr>h_date = own h ''date'', h_name = own h ''name'',
                          h_localName = own h ''localName'', h_isGlobal = own h ''global'',
                          h_types = own h ''types''\<rparr>) items))"
  by (induction items) (auto simp: reshape_holiday_def)

lemma js_ge_throws: "isl (js_ge e v s) \<longleftrightarrow> \<not> has_primitive e v"
  by (auto simp: js_ge_def has_primitive_def split: option.splits json.splits)

lemma js_ge_error: "js_ge e v s = Inl err \<Longrightarrow> err = TypeError"
  by (auto simp: js_ge_def split: option.splits json.splits)

lemma filter_throwing_readable:
  "list_all (\<lambda>h. h \<noteq> JNull \<and> has_primitive e (own h ''date'')) items \<Longrightarrow>
     \<not> isl (filter_throwing (is_upcoming e today) items)"
proof (induction items)
  case Nil
  then show ?case by simp
next
  case (Cons h hs)
  then have "\<not> isl (js_ge e (own h ''date'') today)" and "h \<noteq> JNull"
    and rest: "\<not> isl (filter_throwing (is_upcoming e today) hs)"
    by (simp_all add: js_ge_throws)
  then obtain b where "is_upcoming e today h = Inr b"
    by (cases "js_ge e (own h ''date'') today") (simp_all add: is_upcoming_def)
  with rest show ?case
    by (cases "filter_throwing (is_upcoming e today) hs") simp_all
qed

lemma filter_throwing_unreadable:
  "\<not> list_all (\<lambda>h. h \<noteq> JNull \<and> has_primitive e (own h ''date'')) items \<Longrightarrow>
     filter_throwing (is_upcoming e today) items = Inl TypeError"
proof (induction items)
  case Nil
  then show ?case by simp
next
  case (Cons h hs)
  show ?case
  proof (cases "h \<noteq> JNull \<and> has_primitive e (own h ''date'')")
    case True
    with Cons have rest: "filter_throwing (is_upcoming e today) hs = Inl TypeError"
      by simp
    from True have "\<not> isl (js_ge e (own h ''date'') today)"
      by (simp add: js_ge_throws)
    then obtain b where "js_ge e (own h ''date'') today = Inr b"
      by (cases "js_ge e (own h ''date'') today") simp_all
    with True have "is_upcoming e today h = Inr b"
      by (simp add: is_upcoming_def)
    with rest show ?thesis
      by simp
  next
    case False
    then have "is_upcoming e today h = Inl TypeError"
      using js_ge_throws [of e "own h ''date''" today] js_ge_error [of e "own h ''date''" today]
      by (cases "js_ge e (own h ''date'') today") (auto simp: is_upcoming_def)
    then show ?thesis
      by simp
  qed
qed

lemma overview_output_readable:
  "overview_readable timezones countries \<Longrightarrow> \<not> isl (overview_output e timezones countries)"
  "\<not> overview_readable timezones countries \<Longrightarrow>
     overview_output e timezones countries = Inl TypeError"
  by (auto simp: overview_readable_def overview_output_def js_length_def js_slice0_def
        split: json.splits)

lemma full_report_output_readable:
  "report_readable e timeData holidays \<Longrightarrow>
     \<not> isl (full_report_output e tz countryCode timeData holidays)"
  "\<not> report_readable e timeData holidays \<Longrightarrow>
     full_report_output e tz countryCode timeData holidays = Inl TypeError"
proof -
  let ?today = "before_T (toISOString e (clock e 1))"
  show "\<not> isl (full_report_output e tz countryCode timeData holidays)"
    if "report_readable e timeData holidays"
  proof -
    from that obtain items where "holidays = JArr items" and "timeData \<noteq> JNull"
      and "list_all (\<lambda>h. h \<noteq> JNull \<and> has_primitive e (own h ''date'')) items"
      by (auto simp: report_readable_def split: json.splits)
    with filter_throwing_readable [of e items ?today] show ?thesis
      by (auto simp: full_report_output_def Let_def as_array_def split: sum.splits)
  qed
  show "full_report_output e tz countryCode timeData holidays = Inl TypeError"
    if "\<not> report_readable e timeData holidays"
  proof (cases holidays)
    case (JArr items)
    show ?thesis
    proof (cases "list_all (\<lambda>h. h \<noteq> JNull \<and> has_primitive e (own h ''date'')) items")
      case True
      with that JArr have "timeData = JNull"
        by (simp add: report_readable_def)
      moreover from True obtain kept where
        "filter_throwing (is_upcoming e ?today) items = Inr kept"
        using filter_throwing_readable [of e items ?today]
        by (cases "filter_throwing (is_upcoming e ?today) items") simp_all
      ultimately show ?thesis
        using JArr by (simp add: full_report_output_def Let_def as_array_def)
    next
      case False
      from filter_throwing_unreadable [OF this, of ?today] JArr show ?thesis
        by (simp add: full_report_output_def Let_def as_array_def)
    qed
  qed (simp_all add: full_report_output_def Let_def as_array_def)
qed

lemma status_digits:
  assumes "100 \<le> status" and "status \<le> 999"
  shows "decimal status =
           map (\<lambda>d. of_nat (48 + d)) [status div 100, status div 10 mod 10, status mod 10]"
proof -
  from assms have "\<not> status < 10" and "\<not> status div 10 < 10" and "status div 10 div 10 < 10"
    by simp_all
  moreover have "status div 10 div 10 = status div 100"
    by (simp add: div_mult2_eq)
  ultimately show ?thesis
    by (simp add: decimal.simps [of status] decimal.simps [of "status div 10"]
          decimal.simps [of "status div 100"] digit_def)
qed

lemma overview_surfaces:
  "fst (overview_handler e) = [GET timezones_url, GET countries_url]
   \<and> surfaces2 (settles_first e) (upstream e 0 (GET timezones_url))
         (upstream e 1 (GET countries_url)) overview_readable (snd (overview_handler e))"
proof
  show "fst (overview_handler e) = [GET timezones_url, GET countries_url]"
    by (simp add: overview_handler_def)
  show "surfaces2 (settles_first e) (upstream e 0 (GET timezones_url))
         (upstream e 1 (GET countries_url)) overview_readable (snd (overview_handler e))"
    by (rule surfaces2_read [where k = "overview_output e"])
       (simp_all add: overview_handler_def overview_output_readable split: sum.splits)
qed

lemma current_time_surfaces:
  "(case encodeURIComponent e tz of
      None \<Rightarrow> current_time_handler e tz = ([], Inl URIError)
    | Some encoded \<Rightarrow>
        fst (current_time_handler e tz) = [GET (zone_url encoded)]
      \<and> surfaces1 (upstream e 0 (GET (zone_url encoded))) (\<lambda>data. data \<noteq> JNull)
            (snd (current_time_handler e tz)))"
proof (cases "encodeURIComponent e tz")
  case None
  then show ?thesis
    by (simp add: current_time_handler_def)
next
  case (Some encoded)
  have "surfaces1 (upstream e 0 (GET (zone_url encoded))) (\<lambda>data. data \<noteq> JNull)
            (snd (current_time_handler e tz))"
    by (rule surfaces1_read
          [where k = "\<lambda>data. snd (current_time_handler
                        (e\<lparr>upstream := \<lambda>i r. Http 200 (Some data)\<rparr>) tz)"])
       (simp_all add: current_time_handler_def Some fetchJSON_def read_response_def ok_def
          split: sum.splits)
  then show ?thesis
    by (simp add: Some current_time_handler_def)
qed

lemma convert_surfaces:
  "fst (convert_handler e fromTz toTz dt) = [convert_request fromTz toTz dt]
   \<and> surfaces1 (upstream e 0 (convert_request fromTz toTz dt)) (\<lambda>data. data \<noteq> JNull)
         (snd (convert_handler e fromTz toTz dt))"
proof
  show "fst (convert_handler e fromTz toTz dt) = [convert_request fromTz toTz dt]"
    by (simp add: convert_handler_def)
  show "surfaces1 (upstream e 0 (convert_request fromTz toTz dt)) (\<lambda>data. data \<noteq> JNull)
         (snd (convert_handler e fromTz toTz dt))"
    by (rule surfaces1_read
          [where k = "\<lambda>data. snd (convert_handler
                        (e\<lparr>upstream := \<lambda>i r. Http 200 (Some data)\<rparr>) fromTz toTz dt)"])
       (simp_all add: convert_handler_def read_response_def ok_def split: sum.splits)
qed

lemma holidays_surfaces:
  "fst (holidays_handler e countryCode y) =
     [GET (holidays_url e (year_or_current e y) (toUpperCase e countryCode))]
   \<and> surfaces1
         (upstream e 0 (GET (holidays_url e (year_or_current e y) (toUpperCase e countryCode))))
         holidays_readable (snd (holidays_handler e countryCode y))"
proof
  let ?url = "holidays_url e (year_or_current e y) (toUpperCase e countryCode)"
  show "fst (holidays_handler e countryCode y) = [GET ?url]"
    by (simp add: holidays_handler_def Let_def)
  show "surfaces1 (upstream e 0 (GET ?url)) holidays_readable
          (snd (holidays_handler e countryCode y))"
    by (rule surfaces1_read
          [where k = "\<lambda>data. case as_array data of
                 Inl err \<Rightarrow> Inl err
               | Inr items \<Rightarrow>
                   (case map_throwing reshape_holiday items of
                      Inl err \<Rightarrow> Inl err
                    | Inr holidays \<Rightarrow>
                        Inr \<lparr>hd_countryCode = toUpperCase e countryCode,
                             hd_year = year_or_current e y,
                             hd_totalHolidays = length holidays,
                             hd_holidays = holidays\<rparr>)"])
       (auto simp: holidays_handler_def Let_def fetchJSON_def holidays_readable_def
          as_array_def map_throwing_reshape split: sum.splits json.splits)
qed

lemma full_report_surfaces:
  "(case encodeURIComponent e tz of
      None \<Rightarrow> full_report_handler e tz countryCode = ([], Inl URIError)
    | Some encoded \<Rightarrow>
        fst (full_report_handler e tz countryCode) =
          [GET (zone_url encoded),
           GET (holidays_url e (of_int (getFullYear e (clock e 0))) (toUpperCase e countryCode))]
      \<and> surfaces2 (settles_first e) (upstream e 0 (GET (zone_url encoded)))
            (upstream e 1
               (GET (holidays_url e (of_int (getFullYear e (clock e 0)))
                       (toUpperCase e countryCode))))
            (report_readable e) (snd (full_report_handler e tz countryCode)))"
proof (cases "encodeURIComponent e tz")
  case None
  then show ?thesis
    by (simp add: full_report_handler_def)
next
  case (Some encoded)
  let ?url2 = "holidays_url e (of_int (getFullYear e (clock e 0))) (toUpperCase e countryCode)"
  have "surfaces2 (settles_first e) (upstream e 0 (GET (zone_url encoded)))
            (upstream e 1 (GET ?url2)) (report_readable e)
            (snd (full_report_handler e tz countryCode))"
    by (rule surfaces2_read [where k = "full_report_output e tz countryCode"])
       (simp_all add: full_report_handler_def Some Let_def full_report_output_readable
          split: sum.splits)
  then show ?thesis
    by (simp add: Some full_report_handler_def Let_def)
qed

text \<open>
  Claim C3, as the specification states it: a handler other than the per-item loop of
  multi-zone throws if and only if some upstream call of its batch fails. This does not
  hold. The holidays upstream answering 200 with a JSON object instead of an array is no
  failed call, and the handler throws the \<open>TypeError\<close> of \<open>data.map\<close>.
\<close>

theorem throws_iff_call_fails_counterexample:
  "holidays_handler sample_env (lit ''zz'') (Some 2026) =
     ([GET (lit ''https://date.nager.at/api/v3/publicholidays/2026/ZZ'')], Inl TypeError)
 \<and> answers sample_env [GET (lit ''https://date.nager.at/api/v3/publicholidays/2026/ZZ'')] =
     [Http 200 (Some (JObj [(lit ''holidays'', JArr [])]))]
 \<and> \<not> call_fails (Http 200 (Some (JObj [(lit ''holidays'', JArr [])])))
 \<and> \<not> throws_iff_call_fails sample_env (holidays_handler sample_env (lit ''zz'') (Some 2026))"
proof -
  let ?req = "GET (lit ''https://date.nager.at/api/v3/publicholidays/2026/ZZ'')"
  have url: "holidays_url sample_env (year_or_current sample_env (Some 2026))
               (toUpperCase sample_env (lit ''zz''))
             = lit ''https://date.nager.at/api/v3/publicholidays/2026/ZZ''"
    by (simp add: holidays_url_def year_or_current_def number_toString_def decimal.simps
          digit_def toUpperCase_def ascii_upper_def lit_def)
  have answer: "upstream sample_env 0 ?req = Http 200 (Some (JObj [(lit ''holidays'', JArr [])]))"
    by (simp add: sample_env_def sample_upstream_def timezones_url_def countries_url_def
          convert_request_def lit_def)
  have run: "holidays_handler sample_env (lit ''zz'') (Some 2026) = ([?req], Inl TypeError)"
    by (simp add: holidays_handler_def Let_def url fetchJSON_def answer read_response_def
          ok_def as_array_def)
  have batch: "answers sample_env [?req] = [Http 200 (Some (JObj [(lit ''holidays'', JArr [])]))]"
    by (simp add: answers_def answer)
  have fine: "\<not> call_fails (Http 200 (Some (JObj [(lit ''holidays'', JArr [])])))"
    by (simp add: call_fails_def ok_def)
  have "\<not> throws_iff_call_fails sample_env (holidays_handler sample_env (lit ''zz'') (Some 2026))"
    unfolding run throws_iff_call_fails_def throws_def
    by (simp add: batch fine)
  with run batch fine show ?thesis
    by (intro conjI)
qed


text \<open>
  Claim C3, amended. In the overview, current-time, convert, holidays and full-report
  handlers nothing is caught, and what a run throws is this. When the timezone cannot be
  encoded (current-time, full-report) the run issues no request and throws the
  \<open>URIError\<close>. Otherwise the run issues its batch, and when a call of the batch rejects,
  the run throws the rejection of that call (of the call that settles first, when both
  calls of a batch of two reject). A failed call always rejects: with the rejection of
  \<open>fetch\<close> when the upstream is not reached, and with the error whose message is
  \<open>API error: \<close> followed by the status, in its three decimal digits, when the status is
  outside 200..299; the only other rejection is the \<open>SyntaxError\<close> of a 2xx answer whose
  body is not JSON. When no call rejects, the run throws a \<open>TypeError\<close> if a body is not
  one the handler can read (\<open>overview_readable\<close>, a body other than \<open>null\<close> for current-time
  and convert, \<open>holidays_readable\<close>, \<open>report_readable\<close>), and returns an output otherwise.
  So such a handler throws whenever some upstream call of its batch fails, and throws
  without a failed call exactly in the three other cases named here.
\<close>

theorem upstream_failures_propagate:
  "(fst (overview_handler e) = [GET timezones_url, GET countries_url]
    \<and> surfaces2 (settles_first e) (upstream e 0 (GET timezones_url))
          (upstream e 1 (GET countries_url)) overview_readable (snd (overview_handler e)))
 \<and> (case encodeURIComponent e tz of
       None \<Rightarrow> current_time_handler e tz = ([], Inl URIError)
     | Some encoded \<Rightarrow>
         fst (current_time_handler e tz) = [GET (zone_url encoded)]
       \<and> surfaces1 (upstream e 0 (GET (zone_url encoded))) (\<lambda>data. data \<noteq> JNull)
             (snd (current_time_handler e tz)))
 \<and> (fst (convert_handler e fromTz toTz dt) = [convert_request fromTz toTz dt]
    \<and> surfaces1 (upstream e 0 (convert_request fromTz toTz dt)) (\<lambda>data. data \<noteq> JNull)
          (snd (convert_handler e fromTz toTz dt)))
 \<and> (fst (holidays_handler e countryCode y) =
       [GET (holidays_url e (year_or_current e y) (toUpperCase e countryCode))]
    \<and> surfaces1
          (upstream e 0 (GET (holidays_url e (year_or_current e y) (toUpperCase e countryCode))))
          holidays_readable (snd (holidays_handler e countryCode y)))
 \<and> (case encodeURIComponent e tz' of
       None \<Rightarrow> full_report_handler e tz' countryCode' = ([], Inl URIError)
     | Some encoded \<Rightarrow>
         fst (full_report_handler e tz' countryCode') =
           [GET (zone_url encoded),
            GET (holidays_url e (of_int (getFullYear e (clock e 0)))
                   (toUpperCase e countryCode'))]
       \<and> surfaces2 (settles_first e) (upstream e 0 (GET (zone_url encoded)))
             (upstream e 1
                (GET (holidays_url e (of_int (getFullYear e (clock e 0)))
                        (toUpperCase e countryCode'))))
             (report_readable e) (snd (full_report_handler e tz' countryCode')))
 \<and> (\<forall>r. call_fails r \<longrightarrow>
        rejection r =
          Some (case r of Unreachable \<Rightarrow> FetchRejected
                | Http status body \<Rightarrow> Error (lit ''API error: '' @ decimal status)))
 \<and> (\<forall>status. 100 \<le> status \<and> status \<le> 999 \<longrightarrow>
        decimal status =
          map (\<lambda>d. of_nat (48 + d)) [status div 100, status div 10 mod 10, status mod 10])"
proof -
  have "call_fails r \<longrightarrow>
        rejection r =
          Some (case r of Unreachable \<Rightarrow> FetchRejected
                | Http status body \<Rightarrow> Error (lit ''API error: '' @ decimal status))" for r
    by (auto simp: call_fails_def rejection_def ok_def split: response.splits)
  moreover have "100 \<le> status \<and> status \<le> 999 \<longrightarrow>
        decimal status =
          map (\<lambda>d. of_nat (48 + d)) [status div 100, status div 10 mod 10, status mod 10]"
    for status
    using status_digits [of status] by blast
  ultimately show ?thesis
    using overview_surfaces [of e] current_time_surfaces [of e tz]
      convert_surfaces [of e fromTz toTz dt] holidays_surfaces [of e countryCode y]
      full_report_surfaces [of e tz' countryCode']
    by blast
qed

theorem upstream_failures_propagate_witness:
  "current_time_handler sample_env (lit ''Etc/UTC'') =
     ([GET (lit ''https://timeapi.io/api/time/current/zone?timeZone=Etc%2FUTC'')],
      Inl (Error [65, 80, 73, 32, 101, 114, 114, 111, 114, 58, 32, 53, 48, 51]))
 \<and> holidays_handler sample_env (lit ''zz'') (Some 2026) =
     ([GET (lit ''https://date.nager.at/api/v3/publicholidays/2026/ZZ'')], Inl TypeError)"
proof -
  note all = upstream_failures_propagate
      [of sample_env "lit ''Etc/UTC''" _ _ _ "lit ''zz''" "Some 2026"]
  let ?req = "GET (lit ''https://timeapi.io/api/time/current/zone?timeZone=Etc%2FUTC'')"
  have encoded: "encodeURIComponent sample_env (lit ''Etc/UTC'') = Some (lit ''Etc%2FUTC'')"
    by (simp add: sample_env_def encode_slash_def lit_def)
  have address: "GET (zone_url (lit ''Etc%2FUTC'')) = ?req"
    by (simp add: zone_url_def lit_def)
  have answer: "upstream sample_env 0 ?req = Http 503 None"
    by (simp add: sample_env_def sample_upstream_def timezones_url_def countries_url_def
          convert_request_def lit_def)
  from all [THEN conjunct2, THEN conjunct1]
  have issued: "fst (current_time_handler sample_env (lit ''Etc/UTC'')) = [?req]"
    and surfaced: "surfaces1 (Http 503 None) (\<lambda>data. data \<noteq> JNull)
                     (snd (current_time_handler sample_env (lit ''Etc/UTC'')))"
    unfolding encoded by (simp_all add: address answer)
  from all [THEN conjunct2, THEN conjunct2, THEN conjunct2, THEN conjunct2, THEN conjunct2,
      THEN conjunct2, rule_format, of 503]
  have digits: "decimal 503 = [53, 48, 51]"
    by simp
  have message: "lit ''API error: '' @ [53, 48, 51]
                   = [65, 80, 73, 32, 101, 114, 114, 111, 114, 58, 32, 53, 48, 51]"
    by (simp add: lit_def)
  from surfaced
  have "snd (current_time_handler sample_env (lit ''Etc/UTC''))
          = Inl (Error [65, 80, 73, 32, 101, 114, 114, 111, 114, 58, 32, 53, 48, 51])"
    by (simp add: surfaces1_def rejection_def digits message)
  with issued have first: "current_time_handler sample_env (lit ''Etc/UTC'') =
     ([?req], Inl (Error [65, 80, 73, 32, 101, 114, 114, 111, 114, 58, 32, 53, 48, 51]))"
    by (simp add: prod_eq_iff)
  let ?req' = "GET (lit ''https://date.nager.at/api/v3/publicholidays/2026/ZZ'')"
  have url: "holidays_url sample_env (year_or_current sample_env (Some 2026))
               (toUpperCase sample_env (lit ''zz''))
             = lit ''https://date.nager.at/api/v3/publicholidays/2026/ZZ''"
    by (simp add: holidays_url_def year_or_current_def number_toString_def decimal.simps
          digit_def toUpperCase_def ascii_upper_def lit_def)
  have answer': "upstream sample_env 0 ?req'
                   = Http 200 (Some (JObj [(lit ''holidays'', JArr [])]))"
    by (simp add: sample_env_def sample_upstream_def timezones_url_def countries_url_def
          convert_request_def lit_def)
  from all [THEN conjunct2, THEN conjunct2, THEN conjunct2, THEN conjunct1]
  have issued': "fst (holidays_handler sample_env (lit ''zz'') (Some 2026)) = [?req']"
    and surfaced': "surfaces1 (Http 200 (Some (JObj [(lit ''holidays'', JArr [])])))
                      holidays_readable (snd (holidays_handler sample_env (lit ''zz'') (Some 2026)))"
    unfolding url answer' by simp_all
  from surfaced'
  have "snd (holidays_handler sample_env (lit ''zz'') (Some 2026)) = Inl TypeError"
    by (simp add: surfaces1_def rejection_def json_body_def holidays_readable_def)
  with issued' have second: "holidays_handler sample_env (lit ''zz'') (Some 2026) =
     ([?req'], Inl TypeError)"
    by (simp add: prod_eq_iff)
  from first second show ?thesis
    by (rule conjI)
qed


end
